theory Spec2Isabelle
  imports Main
begin

section \<open>JavaScript values, as far as the webhook handler of src/app/app.js uses them\<close>

text \<open>
  The handler works on the value that \<^verbatim>\<open>JSON.parse\<close> returns, so the values are the
  JSON values plus \<^verbatim>\<open>undefined\<close> (the result of reading a property that is not there).
  A number is held as the decimal text that \<^verbatim>\<open>Number.prototype.toString\<close> gives for it
  (\<^verbatim>\<open>7\<close> as \<open>''7''\<close>, both zeros as \<open>''0''\<close>): the handler only ever converts numbers of
  the payload to strings or tests them for truthiness. An object is its list of own
  properties; a property is looked up with \<open>map_of\<close>.
\<close>

datatype jsval =
    JUndefined
  | JNull
  | JBool bool
  | JNum string
  | JStr string
  | JArr "jsval list"
  | JObj "(string \<times> jsval) list"

text \<open>The errors the handler can raise; all of them end in its \<^verbatim>\<open>catch\<close> block.\<close>

datatype js_error =
    SyntaxError         \<comment> \<open>\<^verbatim>\<open>JSON.parse\<close> on a body that is not JSON\<close>
  | TypeError           \<comment> \<open>property of \<^verbatim>\<open>undefined\<close>/\<^verbatim>\<open>null\<close>, call of a non-function, \<^verbatim>\<open>hmac.update\<close> on a non-buffer\<close>
  | RangeError          \<comment> \<open>\<^verbatim>\<open>timingSafeEqual\<close> on buffers of different length\<close>
  | FetchFailed         \<comment> \<open>\<^verbatim>\<open>fetch\<close> rejected (network failure)\<close>
  | DiscordApiError nat \<comment> \<open>line 147: \<^verbatim>\<open>new Error(`Discord API error: ${status}`)\<close>\<close>

definition nullish :: "jsval \<Rightarrow> bool" where
  "nullish v = (v = JUndefined \<or> v = JNull)"

text \<open>\<^verbatim>\<open>a ?? b\<close>\<close>

definition nullish_or :: "jsval \<Rightarrow> jsval \<Rightarrow> jsval" where
  "nullish_or a b = (if nullish a then b else a)"

text \<open>\<^verbatim>\<open>ToBoolean\<close>: what \<^verbatim>\<open>||\<close> tests.\<close>

fun truthy :: "jsval \<Rightarrow> bool" where
  "truthy JUndefined = False"
| "truthy JNull = False"
| "truthy (JBool b) = b"
| "truthy (JNum s) = (s \<noteq> ''0'' \<and> s \<noteq> ''NaN'')"
| "truthy (JStr s) = (s \<noteq> [])"
| "truthy (JArr xs) = True"
| "truthy (JObj kvs) = True"

text \<open>\<^verbatim>\<open>a || b\<close>\<close>

definition js_or :: "jsval \<Rightarrow> jsval \<Rightarrow> jsval" where
  "js_or a b = (if truthy a then a else b)"

text \<open>
  \<^verbatim>\<open>v.k\<close> for a \<open>v\<close> that is neither \<^verbatim>\<open>undefined\<close> nor \<^verbatim>\<open>null\<close> (on those the read
  throws, which every caller below checks first). The handler reads the properties
  \<^verbatim>\<open>event action data activity updated_at id name field new_value actor display_name\<close>;
  no prototype of a JSON value has one of these, so a value that is not an object, or
  an object without the own property, gives \<^verbatim>\<open>undefined\<close>.
\<close>

fun get_prop :: "jsval \<Rightarrow> string \<Rightarrow> jsval" where
  "get_prop (JObj kvs) k = (case map_of kvs k of Some v \<Rightarrow> v | None \<Rightarrow> JUndefined)"
| "get_prop v k = JUndefined"

text \<open>\<^verbatim>\<open>v?.k\<close>\<close>

definition optchain :: "jsval \<Rightarrow> string \<Rightarrow> jsval" where
  "optchain v k = (if nullish v then JUndefined else get_prop v k)"

text \<open>
  \<^verbatim>\<open>ToString\<close>, as a template literal and \<^verbatim>\<open>String(v)\<close> apply it. An array is joined
  with commas, \<^verbatim>\<open>undefined\<close> and \<^verbatim>\<open>null\<close> elements giving the empty string. A plain
  object gives \<^verbatim>\<open>[object Object]\<close> through \<^verbatim>\<open>Object.prototype.toString\<close>, unless it has
  an own property \<^verbatim>\<open>toString\<close>: that one comes from JSON, is no function, and the
  conversion to a primitive throws a TypeError.
\<close>

fun ToString :: "jsval \<Rightarrow> js_error + string"
  and join :: "jsval list \<Rightarrow> js_error + string" where
  "ToString JUndefined = Inr ''undefined''"
| "ToString JNull = Inr ''null''"
| "ToString (JBool b) = Inr (if b then ''true'' else ''false'')"
| "ToString (JNum s) = Inr s"
| "ToString (JStr s) = Inr s"
| "ToString (JArr xs) = join xs"
| "ToString (JObj kvs) =
     (if ''toString'' \<in> fst ` set kvs then Inl TypeError else Inr ''[object Object]'')"
| "join [] = Inr []"
| "join (x # xs) =
     (case (if x = JUndefined \<or> x = JNull then Inr [] else ToString x) of
        Inl e \<Rightarrow> Inl e
      | Inr s \<Rightarrow>
          (if xs = [] then Inr s
           else (case join xs of Inl e \<Rightarrow> Inl e | Inr r \<Rightarrow> Inr (s @ '','' @ r))))"

section \<open>Timestamps\<close>

text \<open>
  \<^verbatim>\<open>new Date(v).getTime()\<close> is a whole number of milliseconds, or NaN for an invalid
  date. The handler subtracts two of them and compares the difference with \<open>0\<close> and
  \<open>WINDOW_MS\<close>; every operation on NaN gives NaN, every comparison with NaN is false,
  and \<^verbatim>\<open>===\<close> is false on NaN. (Time values are integers below \<open>8.64e15\<close> in size, so a
  difference between \<open>0\<close> and \<open>1500\<close> is exact in a double and rounding never moves a
  difference across \<open>0\<close> or \<open>1500\<close>: integer arithmetic decides the two tests as the
  doubles do.)
\<close>

datatype jsnum = NaN | Num int

fun num_sub :: "jsnum \<Rightarrow> jsnum \<Rightarrow> jsnum" where
  "num_sub (Num a) (Num b) = Num (a - b)"
| "num_sub a b = NaN"

fun num_ge :: "jsnum \<Rightarrow> int \<Rightarrow> bool" where
  "num_ge (Num a) b = (a \<ge> b)"
| "num_ge NaN b = False"

fun num_lt :: "jsnum \<Rightarrow> int \<Rightarrow> bool" where
  "num_lt (Num a) b = (a < b)"
| "num_lt NaN b = False"

fun strict_eq :: "jsnum \<Rightarrow> jsnum \<Rightarrow> bool" where
  "strict_eq (Num a) (Num b) = (a = b)"
| "strict_eq a b = False"

section \<open>The runtime: library functions the handler calls\<close>

text \<open>
  The functions of Node and of the language that the handler calls and whose code is
  not part of the repository are parameters of the model; every theorem holds for
  each choice of them.
  \<^item> \<open>hmac_sha256_hex secret body\<close>: \<^verbatim>\<open>createHmac("sha256", secret).update(body).digest("hex")\<close>;
  \<^item> \<open>JSON_parse body\<close>: \<^verbatim>\<open>JSON.parse(body.toString("utf-8"))\<close>, \<open>None\<close> when it throws;
  \<^item> \<open>JSON_stringify\<close>: \<^verbatim>\<open>JSON.stringify\<close>;
  \<^item> \<open>Date_getTime v\<close>: \<^verbatim>\<open>new Date(v).getTime()\<close> (it can throw, on an object that has
    no primitive value);
  \<^item> \<open>toUpperCase\<close>: \<^verbatim>\<open>String.prototype.toUpperCase\<close>.
\<close>

record runtime =
  hmac_sha256_hex :: "string \<Rightarrow> string \<Rightarrow> string"
  JSON_parse :: "string \<Rightarrow> jsval option"
  JSON_stringify :: "jsval \<Rightarrow> string"
  Date_getTime :: "jsval \<Rightarrow> js_error + jsnum"
  toUpperCase :: "string \<Rightarrow> string"

text \<open>\<^verbatim>\<open>v.toUpperCase()\<close>: only a string has the method.\<close>

fun call_toUpperCase :: "runtime \<Rightarrow> jsval \<Rightarrow> js_error + string" where
  "call_toUpperCase rt (JStr s) = Inr (toUpperCase rt s)"
| "call_toUpperCase rt v = Inl TypeError"

text \<open>
  \<^verbatim>\<open>Buffer.from(s, "utf-8")\<close> for a string whose code units are below 256 (a header
  value, which Node decodes as latin1, and a hex digest): a code unit below 128 is one
  byte, one from 128 on is two.
\<close>

definition utf8_of_char :: "char \<Rightarrow> char list" where
  "utf8_of_char c =
     (let n = (of_char c :: nat) in
      if n < 128 then [c] else [char_of (192 + n div 64), char_of (128 + n mod 64)])"

definition Buffer_from :: "string \<Rightarrow> char list" where
  "Buffer_from s = concat (map utf8_of_char s)"

text \<open>\<^verbatim>\<open>crypto.timingSafeEqual\<close>: throws on buffers of different byte length.\<close>

definition timingSafeEqual :: "char list \<Rightarrow> char list \<Rightarrow> js_error + bool" where
  "timingSafeEqual a b = (if length a \<noteq> length b then Inl RangeError else Inr (a = b))"

section \<open>Configuration, requests, responses, effects\<close>

text \<open>Lines 21 to 31. An environment variable that is not set is \<^verbatim>\<open>undefined\<close>.\<close>

record config =
  WebhookSecret :: "string option"
  DiscordWebhookUrl :: "string option"

definition WINDOW_MS :: nat where
  "WINDOW_MS = 1500"

text \<open>\<^verbatim>\<open>!s\<close> for a string that may be \<^verbatim>\<open>undefined\<close>: true when absent or empty.\<close>

fun missing :: "string option \<Rightarrow> bool" where
  "missing None = True"
| "missing (Some s) = (s = [])"

text \<open>Lines 24 to 28: the module throws at load time when a variable is missing.\<close>

definition startup :: "config \<Rightarrow> bool" where
  "startup cfg = (\<not> (missing (WebhookSecret cfg) \<or> missing (DiscordWebhookUrl cfg)))"

text \<open>
  What the handler reads of a request: the header \<^verbatim>\<open>x-plane-signature\<close> and the body.
  The body is \<open>None\<close> when \<^verbatim>\<open>express.raw\<close> left it unparsed (a request without payload
  or content type): \<^verbatim>\<open>req.body\<close> is then no buffer and \<^verbatim>\<open>hmac.update\<close> throws a
  TypeError.
\<close>

record request =
  x_plane_signature :: "string option"
  body :: "string option"

record response =
  status :: nat
  send :: string

text \<open>What \<^verbatim>\<open>await fetch(...)\<close> gives: a rejection, or a response with its status.\<close>

datatype fetch_outcome = NetworkError | Response nat

definition ok :: "nat \<Rightarrow> bool" where
  "ok s = (200 \<le> s \<and> s \<le> 299)"

text \<open>
  The calls the handler makes on the outside world, in the order it makes them:
  the comparator with its two buffers, \<^verbatim>\<open>setTimeout\<close> with the key and timestamp its
  callback closes over and the delay, \<^verbatim>\<open>fetch\<close> with the URL and the body, and
  \<^verbatim>\<open>console.error\<close> in the catch block.
\<close>

datatype effect =
    CallTimingSafeEqual "char list" "char list"
  | SetTimeout string jsnum nat
  | Fetch "string option" string
  | ConsoleError js_error

section \<open>The pending-record table\<close>

text \<open>Lines 30, 89 to 92 and 153 to 156: \<^verbatim>\<open>sequenceMap\<close> and its records.\<close>

record pending_record =
  timestamp :: jsnum
  action :: jsval

type_synonym sequenceMap = "string \<rightharpoonup> pending_record"

text \<open>
  Lines 94 to 99, the callback given to \<^verbatim>\<open>setTimeout\<close>, with the \<open>sequenceKey\<close> and
  \<open>incomingTimestamp\<close> it closes over.
\<close>

definition expiry_callback :: "string \<Rightarrow> jsnum \<Rightarrow> sequenceMap \<Rightarrow> sequenceMap" where
  "expiry_callback sequenceKey incomingTimestamp m =
     (case m sequenceKey of
        None \<Rightarrow> m
      | Some rec \<Rightarrow>
          if strict_eq (timestamp rec) incomingTimestamp then m(sequenceKey := None) else m)"

datatype decision = Cached | Completed | Reset

text \<open>
  Lines 86 to 107 and 153 to 156: the three-way decision on the table, with the new
  table and the timer scheduled. (A record is an object, so \<^verbatim>\<open>!existingRecord\<close> holds
  exactly when the key has no record.)
\<close>

definition observe ::
  "sequenceMap \<Rightarrow> string \<Rightarrow> jsnum \<Rightarrow> jsval \<Rightarrow> decision \<times> sequenceMap \<times> effect list" where
  "observe m sequenceKey incomingTimestamp act =
     (case m sequenceKey of
        None \<Rightarrow>
          (Cached,
           m(sequenceKey \<mapsto> \<lparr>timestamp = incomingTimestamp, action = act\<rparr>),
           [SetTimeout sequenceKey incomingTimestamp WINDOW_MS])
      | Some existingRecord \<Rightarrow>
          (let timeDifference = num_sub incomingTimestamp (timestamp existingRecord) in
           if num_ge timeDifference 0 \<and> num_lt timeDifference (int WINDOW_MS)
           then (Completed, m(sequenceKey := None), [])
           else (Reset,
                 m(sequenceKey \<mapsto> \<lparr>timestamp = incomingTimestamp, action = act\<rparr>),
                 [])))"

section \<open>The handler of POST /webhook\<close>

text \<open>
  Lines 58 to 77: the signature check. Its result is a rejection with the response
  sent, or the body that was authenticated; it can throw before the comparison (the
  body is no buffer). The comparator is called only when the two lengths agree,
  since \<^verbatim>\<open>||\<close> does not evaluate its right operand when the left one is true.
\<close>

datatype verdict = Rejected response | Authentic string

definition verify :: "runtime \<Rightarrow> config \<Rightarrow> request \<Rightarrow> effect list \<times> (js_error + verdict)" where
  "verify rt cfg req =
     (case (WebhookSecret cfg, x_plane_signature req) of
        (Some secret, Some ProvidedSignature) \<Rightarrow>
          if secret = [] \<or> ProvidedSignature = []
          then ([], Inr (Rejected \<lparr>status = 401, send = ''Unauthorized''\<rparr>))
          else
            (case body req of
               None \<Rightarrow> ([], Inl TypeError)
             | Some RequestBody \<Rightarrow>
                 (let ExpectedSignature = hmac_sha256_hex rt secret RequestBody;
                      ExpectedBuffer = Buffer_from ExpectedSignature;
                      ProvidedBuffer = Buffer_from ProvidedSignature
                  in if length ExpectedBuffer \<noteq> length ProvidedBuffer
                     then ([], Inr (Rejected \<lparr>status = 403, send = ''Forbidden''\<rparr>))
                     else
                       (case timingSafeEqual ExpectedBuffer ProvidedBuffer of
                          Inl e \<Rightarrow> ([CallTimingSafeEqual ExpectedBuffer ProvidedBuffer], Inl e)
                        | Inr equal \<Rightarrow>
                            ([CallTimingSafeEqual ExpectedBuffer ProvidedBuffer],
                             if \<not> equal
                             then Inr (Rejected \<lparr>status = 403, send = ''Forbidden''\<rparr>)
                             else Inr (Authentic RequestBody)))))
      | _ \<Rightarrow> ([], Inr (Rejected \<lparr>status = 401, send = ''Unauthorized''\<rparr>)))"

text \<open>Lines 79 to 84: what the handler takes from the payload.\<close>

record envelope =
  env_event :: jsval
  env_action :: jsval
  env_data :: jsval
  env_activity :: jsval
  incomingTimestamp :: jsnum
  sequenceKey :: string

text \<open>
  Lines 79 to 84. \<^verbatim>\<open>JSON.parse\<close> throws on a body that is not JSON; destructuring
  \<^verbatim>\<open>null\<close> throws; \<^verbatim>\<open>data.updated_at\<close> throws when \<open>data\<close> is \<^verbatim>\<open>undefined\<close> or
  \<^verbatim>\<open>null\<close>; the template literal of the key converts \<open>event\<close> and \<open>data.id\<close> to
  strings. Nothing else is checked: a property that is missing is \<^verbatim>\<open>undefined\<close>.
\<close>

definition parse_envelope :: "runtime \<Rightarrow> string \<Rightarrow> js_error + envelope" where
  "parse_envelope rt RequestBody =
     (case JSON_parse rt RequestBody of
        None \<Rightarrow> Inl SyntaxError
      | Some RequestData \<Rightarrow>
          if nullish RequestData then Inl TypeError
          else
            (let event = get_prop RequestData ''event'';
                 act = get_prop RequestData ''action'';
                 data = get_prop RequestData ''data'';
                 activity = get_prop RequestData ''activity''
             in if nullish data then Inl TypeError
                else
                  (case Date_getTime rt (get_prop data ''updated_at'') of
                     Inl e \<Rightarrow> Inl e
                   | Inr ts \<Rightarrow>
                       (let entityId = get_prop data ''id'' in
                        case ToString event of
                          Inl e \<Rightarrow> Inl e
                        | Inr ev \<Rightarrow>
                            (case ToString entityId of
                               Inl e \<Rightarrow> Inl e
                             | Inr ident \<Rightarrow>
                                 Inr \<lparr>env_event = event, env_action = act, env_data = data,
                                      env_activity = activity, incomingTimestamp = ts,
                                      sequenceKey = ev @ '':'' @ ident\<rparr>)))))"

text \<open>
  Lines 109 to 115: \<open>fieldType\<close> and \<open>content\<close>.
\<close>

definition fieldType :: "envelope \<Rightarrow> jsval" where
  "fieldType env = nullish_or (optchain (env_activity env) ''field'') (JStr ''No field data'')"

definition content :: "runtime \<Rightarrow> envelope \<Rightarrow> js_error + jsval" where
  "content rt env =
     (if fieldType env = JStr ''state''
      then
        (case ToString (nullish_or (optchain (env_activity env) ''new_value'') (JStr ''Unknown'')) of
           Inl e \<Rightarrow> Inl e
         | Inr s \<Rightarrow> Inr (JStr (''Issue is now in '' @ toUpperCase rt s)))
      else Inr (fieldType env))"

text \<open>
  Lines 109 to 138: the embed, built from the variables of the request being handled
  and the time of day (\<open>now\<close> is \<^verbatim>\<open>new Date().toISOString()\<close>). \<open>0x509bea\<close> is
  \<open>5282794\<close>.
\<close>

definition build_embed :: "runtime \<Rightarrow> envelope \<Rightarrow> string \<Rightarrow> js_error + jsval" where
  "build_embed rt env now =
     (case content rt env of
        Inl e \<Rightarrow> Inl e
      | Inr cont \<Rightarrow>
     (case call_toUpperCase rt (env_event env) of
        Inl e \<Rightarrow> Inl e
      | Inr EVENT \<Rightarrow>
     (case call_toUpperCase rt (env_action env) of
        Inl e \<Rightarrow> Inl e
      | Inr ACTION \<Rightarrow>
     (case ToString (js_or (get_prop (env_data env) ''name'') (get_prop (env_data env) ''id'')) of
        Inl e \<Rightarrow> Inl e
      | Inr entity \<Rightarrow>
          Inr (JObj
            [(''title'', JStr (EVENT @ '' '' @ ACTION)),
             (''description'', JStr (''**Entity:** '' @ entity)),
             (''color'', JNum ''5282794''),
             (''fields'', JArr
                [JObj [(''name'', JStr ''Type''), (''value'', fieldType env),
                       (''inline'', JBool True)],
                 JObj [(''name'', JStr ''By''),
                       (''value'',
                        nullish_or (optchain (optchain (env_activity env) ''actor'') ''display_name'')
                          (JStr ''Unknown User'')),
                       (''inline'', JBool True)],
                 JObj [(''name'', JStr ''Content''), (''value'', cont)]]),
             (''timestamp'', JStr now)])))))"

text \<open>Lines 159 to 162: the catch block. What was done to the table before the throw stays.\<close>

definition catch :: "js_error \<Rightarrow> sequenceMap \<Rightarrow> effect list \<Rightarrow> response \<times> sequenceMap \<times> effect list" where
  "catch e m effs =
     (\<lparr>status = 500, send = ''Internal Server Error''\<rparr>, m, effs @ [ConsoleError e])"

text \<open>
  Lines 140 to 150: the delivery, once the embed is built. \<open>outcome\<close> is what the
  awaited \<^verbatim>\<open>fetch\<close> gives.
\<close>

definition deliver ::
  "runtime \<Rightarrow> config \<Rightarrow> jsval \<Rightarrow> fetch_outcome \<Rightarrow> effect list \<times> (js_error + response)" where
  "deliver rt cfg emb outcome =
     ([Fetch (DiscordWebhookUrl cfg) (JSON_stringify rt (JObj [(''embeds'', JArr [emb])]))],
      (case outcome of
         NetworkError \<Rightarrow> Inl FetchFailed
       | Response s \<Rightarrow>
           if \<not> ok s then Inl (DiscordApiError s)
           else Inr \<lparr>status = 200, send = ''Sequence complete''\<rparr>))"

text \<open>
  Lines 56 to 163: the handler. It takes the table, the request, the outcome of the
  fetch (used only if one is made) and the time of day, and gives the response, the
  new table and the calls made.
\<close>

definition handler ::
  "runtime \<Rightarrow> config \<Rightarrow> sequenceMap \<Rightarrow> request \<Rightarrow> fetch_outcome \<Rightarrow> string
     \<Rightarrow> response \<times> sequenceMap \<times> effect list" where
  "handler rt cfg m req outcome now =
     (case verify rt cfg req of
        (effs, Inl e) \<Rightarrow> catch e m effs
      | (effs, Inr (Rejected resp)) \<Rightarrow> (resp, m, effs)
      | (effs, Inr (Authentic RequestBody)) \<Rightarrow>
          (case parse_envelope rt RequestBody of
             Inl e \<Rightarrow> catch e m effs
           | Inr env \<Rightarrow>
               (case observe m (sequenceKey env) (incomingTimestamp env) (env_action env) of
                  (Cached, m', timers) \<Rightarrow>
                    (\<lparr>status = 200, send = ''Initial event cached''\<rparr>, m', effs @ timers)
                | (Reset, m', timers) \<Rightarrow>
                    (\<lparr>status = 200, send = ''Window reset''\<rparr>, m', effs @ timers)
                | (Completed, m', timers) \<Rightarrow>
                    (case build_embed rt env now of
                       Inl e \<Rightarrow> catch e m' (effs @ timers)
                     | Inr emb \<Rightarrow>
                         (case deliver rt cfg emb outcome of
                            (call, Inl e) \<Rightarrow> catch e m' (effs @ timers @ call)
                          | (call, Inr resp) \<Rightarrow> (resp, m', effs @ timers @ call))))))"

section \<open>The process: the table and the timers that are pending\<close>

text \<open>
  A pending timer is the pair of key and timestamp its callback closes over. The
  process handles a request, or lets a pending timer fire; \<^verbatim>\<open>setTimeout\<close> says when
  a timer is due, and the model lets it fire at any later step.
\<close>

record process =
  table :: sequenceMap
  pending :: "(string \<times> jsnum) list"

datatype event = Incoming request fetch_outcome string | TimerFires nat

fun scheduled :: "effect list \<Rightarrow> (string \<times> jsnum) list" where
  "scheduled [] = []"
| "scheduled (SetTimeout k ts d # es) = (k, ts) # scheduled es"
| "scheduled (e # es) = scheduled es"

fun step :: "runtime \<Rightarrow> config \<Rightarrow> process \<Rightarrow> event \<Rightarrow> process" where
  "step rt cfg p (Incoming req outcome now) =
     (case handler rt cfg (table p) req outcome now of
        (resp, m', effs) \<Rightarrow> \<lparr>table = m', pending = pending p @ scheduled effs\<rparr>)"
| "step rt cfg p (TimerFires i) =
     (if i < length (pending p)
      then \<lparr>table = expiry_callback (fst (pending p ! i)) (snd (pending p ! i)) (table p),
            pending = take i (pending p) @ drop (Suc i) (pending p)\<rparr>
      else p)"

fun run :: "runtime \<Rightarrow> config \<Rightarrow> process \<Rightarrow> event list \<Rightarrow> process" where
  "run rt cfg p [] = p"
| "run rt cfg p (e # es) = run rt cfg (step rt cfg p e) es"

section \<open>A small runtime, for running the handler on examples\<close>

text \<open>
  The examples below run the handler with these stand-ins for the library: upper-casing
  of ASCII letters, a digest of 64 hex digits, a few payloads named by their body, the
  dates \<open>T\<close>, \<open>T+500\<close> and \<open>T+2000\<close> (every other value is an invalid date), and a
  rendering of a value as text.
\<close>

definition ascii_upper :: "string \<Rightarrow> string" where
  "ascii_upper s =
     map (\<lambda>c. let n = (of_char c :: nat) in if 97 \<le> n \<and> n \<le> 122 then char_of (n - 32) else c) s"

definition sample_digest :: string where
  "sample_digest = ''5f2b1c0d9e8a77665544332211ffeeddccbbaa99887766554433221100abcdef''"

definition first_payload :: jsval where
  "first_payload =
     JObj [(''event'', JStr ''issue''), (''action'', JStr ''updated''),
           (''data'', JObj [(''id'', JNum ''7''), (''name'', JStr ''Fix login''),
                            (''updated_at'', JStr ''T'')])]"

definition other_first_payload :: jsval where
  "other_first_payload =
     JObj [(''event'', JStr ''issue''), (''action'', JStr ''created''),
           (''data'', JObj [(''id'', JNum ''7''), (''name'', JStr ''Old title''),
                            (''updated_at'', JStr ''T'')]),
           (''activity'', JObj [(''field'', JStr ''priority''), (''new_value'', JStr ''high''),
                                (''actor'', JObj [(''display_name'', JStr ''Bob'')])])]"

definition second_payload :: jsval where
  "second_payload =
     JObj [(''event'', JStr ''issue''), (''action'', JStr ''updated''),
           (''data'', JObj [(''id'', JNum ''7''), (''name'', JStr ''Fix login''),
                            (''updated_at'', JStr ''T+500'')]),
           (''activity'', JObj [(''field'', JStr ''state''), (''new_value'', JStr ''done''),
                                (''actor'', JObj [(''display_name'', JStr ''Ada'')])])]"

definition late_payload :: jsval where
  "late_payload =
     JObj [(''event'', JStr ''issue''), (''action'', JStr ''updated''),
           (''data'', JObj [(''id'', JNum ''7''), (''name'', JStr ''Fix login''),
                            (''updated_at'', JStr ''T+2000'')])]"

definition bare_payload :: jsval where
  "bare_payload = JObj [(''data'', JObj [])]"

definition unnamed_payload :: "string \<Rightarrow> jsval" where
  "unnamed_payload at = JObj [(''data'', JObj [(''id'', JNum ''7''), (''updated_at'', JStr at)])]"

definition sample_parse :: "string \<Rightarrow> jsval option" where
  "sample_parse b =
     (if b = ''first'' then Some first_payload
      else if b = ''other first'' then Some other_first_payload
      else if b = ''second'' then Some second_payload
      else if b = ''late'' then Some late_payload
      else if b = ''bare'' then Some bare_payload
      else if b = ''unnamed'' then Some (unnamed_payload ''T'')
      else if b = ''unnamed again'' then Some (unnamed_payload ''T+500'')
      else if b = ''null'' then Some JNull
      else None)"

definition sample_date :: "jsval \<Rightarrow> js_error + jsnum" where
  "sample_date v =
     (if v = JStr ''T'' then Inr (Num 1000)
      else if v = JStr ''T+500'' then Inr (Num 1500)
      else if v = JStr ''T+2000'' then Inr (Num 3000)
      else Inr NaN)"

fun sample_stringify :: "jsval \<Rightarrow> string" where
  "sample_stringify JUndefined = ''undefined''"
| "sample_stringify JNull = ''null''"
| "sample_stringify (JBool b) = (if b then ''true'' else ''false'')"
| "sample_stringify (JNum s) = s"
| "sample_stringify (JStr s) = ''<'' @ s @ ''>''"
| "sample_stringify (JArr xs) = ''['' @ concat (map (\<lambda>x. sample_stringify x @ '','') xs) @ '']''"
| "sample_stringify (JObj kvs) =
     ''{'' @ concat (map (\<lambda>kv. fst kv @ '':'' @ sample_stringify (snd kv) @ '','') kvs) @ ''}''"

definition sample_runtime :: runtime where
  "sample_runtime =
     \<lparr>hmac_sha256_hex = (\<lambda>secret body. sample_digest),
      JSON_parse = sample_parse,
      JSON_stringify = sample_stringify,
      Date_getTime = sample_date,
      toUpperCase = ascii_upper\<rparr>"

definition sample_config :: config where
  "sample_config =
     \<lparr>WebhookSecret = Some ''s3cret'', DiscordWebhookUrl = Some ''https://sink.example/hook''\<rparr>"

definition signed :: "string \<Rightarrow> request" where
  "signed b = \<lparr>x_plane_signature = Some sample_digest, body = Some b\<rparr>"



definition is_fetch :: "effect \<Rightarrow> bool" where
  "is_fetch e = (case e of Fetch u b \<Rightarrow> True | _ \<Rightarrow> False)"

text \<open>
  The key a request works on: the one of its envelope, if the request passes the
  signature check and its payload can be read. An event spares a key when it is a
  timer, or a request that does not work on the key.
\<close>

definition request_key :: "runtime \<Rightarrow> config \<Rightarrow> request \<Rightarrow> string option" where
  "request_key rt cfg req =
     (case snd (verify rt cfg req) of
        Inr (Authentic b) \<Rightarrow>
          (case parse_envelope rt b of Inr env \<Rightarrow> Some (sequenceKey env) | Inl e \<Rightarrow> None)
      | _ \<Rightarrow> None)"

definition spares :: "runtime \<Rightarrow> config \<Rightarrow> string \<Rightarrow> event \<Rightarrow> bool" where
  "spares rt cfg k e =
     (case e of Incoming req outcome now \<Rightarrow> request_key rt cfg req \<noteq> Some k | TimerFires i \<Rightarrow> True)"

section \<open>Facts about the pieces\<close>

lemma observe_absent:
  "m k = None \<Longrightarrow>
   observe m k t a = (Cached, m(k \<mapsto> \<lparr>timestamp = t, action = a\<rparr>), [SetTimeout k t WINDOW_MS])"
  by (simp add: observe_def)

lemma in_window_iff:
  "(num_ge (num_sub t s) 0 \<and> num_lt (num_sub t s) (int WINDOW_MS)) =
   (\<exists>i c. t = Num i \<and> s = Num c \<and> 0 \<le> i - c \<and> i - c < 1500)"
  by (cases t; cases s) (auto simp: WINDOW_MS_def)

lemma observe_present:
  "m k = Some r \<Longrightarrow>
   observe m k t a =
     (if \<exists>i c. t = Num i \<and> timestamp r = Num c \<and> 0 \<le> i - c \<and> i - c < 1500
      then (Completed, m(k := None), [])
      else (Reset, m(k \<mapsto> \<lparr>timestamp = t, action = a\<rparr>), []))"
  unfolding observe_def Let_def in_window_iff by simp

lemma handler_authentic:
  assumes "verify rt cfg req = (effs, Inr (Authentic b))"
    and "parse_envelope rt b = Inr env"
    and "observe m (sequenceKey env) (incomingTimestamp env) (env_action env) = (d, m', timers)"
  shows "fst (snd (handler rt cfg m req outcome now)) = m'"
  using assms
  by (cases d) (simp_all add: handler_def catch_def split: sum.splits prod.splits)


lemma sample_digest_nonempty: "sample_digest \<noteq> []"
  by (simp add: sample_digest_def)

lemma triple_eq: "p = (fst p, fst (snd p), snd (snd p))"
  by simp

lemma sample_verify:
  "verify sample_runtime sample_config (signed b) =
     ([CallTimingSafeEqual (Buffer_from sample_digest) (Buffer_from sample_digest)],
      Inr (Authentic b))"
  by (simp add: verify_def sample_runtime_def sample_config_def signed_def timingSafeEqual_def
      Let_def sample_digest_nonempty)

lemma sample_envelope_first:
  "parse_envelope sample_runtime ''first'' =
     Inr \<lparr>env_event = JStr ''issue'', env_action = JStr ''updated'',
          env_data = JObj [(''id'', JNum ''7''), (''name'', JStr ''Fix login''),
                           (''updated_at'', JStr ''T'')],
          env_activity = JUndefined, incomingTimestamp = Num 1000, sequenceKey = ''issue:7''\<rparr>"
  by (simp add: parse_envelope_def sample_runtime_def sample_parse_def first_payload_def
      nullish_def sample_date_def)

lemma sample_envelope_second:
  "parse_envelope sample_runtime ''second'' =
     Inr \<lparr>env_event = JStr ''issue'', env_action = JStr ''updated'',
          env_data = JObj [(''id'', JNum ''7''), (''name'', JStr ''Fix login''),
                           (''updated_at'', JStr ''T+500'')],
          env_activity = JObj [(''field'', JStr ''state''), (''new_value'', JStr ''done''),
                               (''actor'', JObj [(''display_name'', JStr ''Ada'')])],
          incomingTimestamp = Num 1500, sequenceKey = ''issue:7''\<rparr>"
  by (simp add: parse_envelope_def sample_runtime_def sample_parse_def second_payload_def
      nullish_def sample_date_def)

lemma sample_envelope_late:
  "parse_envelope sample_runtime ''late'' =
     Inr \<lparr>env_event = JStr ''issue'', env_action = JStr ''updated'',
          env_data = JObj [(''id'', JNum ''7''), (''name'', JStr ''Fix login''),
                           (''updated_at'', JStr ''T+2000'')],
          env_activity = JUndefined, incomingTimestamp = Num 3000, sequenceKey = ''issue:7''\<rparr>"
  by (simp add: parse_envelope_def sample_runtime_def sample_parse_def late_payload_def
      nullish_def sample_date_def)

lemma sample_envelope_bare:
  "parse_envelope sample_runtime ''bare'' =
     Inr \<lparr>env_event = JUndefined, env_action = JUndefined, env_data = JObj [],
          env_activity = JUndefined, incomingTimestamp = NaN,
          sequenceKey = ''undefined:undefined''\<rparr>"
  by (simp add: parse_envelope_def sample_runtime_def sample_parse_def bare_payload_def
      nullish_def sample_date_def)

lemma verify_shape:
  assumes "verify rt cfg req = (effs, r)"
  shows "(effs = [] \<or> (\<exists>a b. effs = [CallTimingSafeEqual a b] \<and> length a = length b))
       \<and> r \<noteq> Inl RangeError
       \<and> (\<forall>resp. r = Inr (Rejected resp) \<longrightarrow>
             resp = \<lparr>status = 401, send = ''Unauthorized''\<rparr> \<or>
             resp = \<lparr>status = 403, send = ''Forbidden''\<rparr>)"
  using assms
  by (auto simp: verify_def timingSafeEqual_def Let_def split: option.splits if_splits)

lemma verify_schedules_nothing: "verify rt cfg req = (effs, r) \<Longrightarrow> scheduled effs = []"
  using verify_shape [of rt cfg req effs r] by auto

lemma verify_no_fetch: "verify rt cfg req = (effs, r) \<Longrightarrow> filter is_fetch effs = []"
  using verify_shape [of rt cfg req effs r] by (auto simp: is_fetch_def)

lemma handler_rejected:
  "verify rt cfg req = (effs, Inr (Rejected resp)) \<Longrightarrow>
   handler rt cfg m req outcome now = (resp, m, effs)"
  by (simp add: handler_def)

lemma handler_verify_throws:
  "verify rt cfg req = (effs, Inl e) \<Longrightarrow>
   handler rt cfg m req outcome now = catch e m effs"
  by (simp add: handler_def)

lemma handler_unreadable:
  "verify rt cfg req = (effs, Inr (Authentic b)) \<Longrightarrow> parse_envelope rt b = Inl e \<Longrightarrow>
   handler rt cfg m req outcome now = catch e m effs"
  by (simp add: handler_def)

lemma deliver_status:
  "deliver rt cfg emb outcome = (call, r) \<Longrightarrow>
   (\<exists>u bdy. call = [Fetch u bdy]) \<and> (\<forall>resp. r = Inr resp \<longrightarrow> status resp = 200)"
  by (auto simp: deliver_def split: fetch_outcome.splits if_splits)

lemma handler_readable:
  assumes "verify rt cfg req = (effs, Inr (Authentic b))"
    and "parse_envelope rt b = Inr env"
  shows "handler rt cfg m req outcome now =
     (case observe m (sequenceKey env) (incomingTimestamp env) (env_action env) of
        (Cached, m', timers) \<Rightarrow>
          (\<lparr>status = 200, send = ''Initial event cached''\<rparr>, m', effs @ timers)
      | (Reset, m', timers) \<Rightarrow>
          (\<lparr>status = 200, send = ''Window reset''\<rparr>, m', effs @ timers)
      | (Completed, m', timers) \<Rightarrow>
          (case build_embed rt env now of
             Inl e \<Rightarrow> catch e m' (effs @ timers)
           | Inr emb \<Rightarrow>
               (case deliver rt cfg emb outcome of
                  (call, Inl e) \<Rightarrow> catch e m' (effs @ timers @ call)
                | (call, Inr resp) \<Rightarrow> (resp, m', effs @ timers @ call))))"
  using assms by (simp add: handler_def)

lemma handler_status:
  "status (fst (handler rt cfg m req outcome now)) \<in> {200, 401, 403, 500}"
proof -
  obtain effs r where v: "verify rt cfg req = (effs, r)" by (cases "verify rt cfg req")
  show ?thesis
  proof (cases r)
    case (Inl e)
    with v show ?thesis by (simp add: handler_verify_throws catch_def)
  next
    case (Inr vd)
    show ?thesis
    proof (cases vd)
      case (Rejected resp)
      with v Inr verify_shape [OF v] show ?thesis by (auto simp: handler_rejected)
    next
      case (Authentic b)
      show ?thesis
      proof (cases "parse_envelope rt b")
        case (Inl e)
        with v Inr Authentic show ?thesis by (simp add: handler_unreadable catch_def)
      next
        case (Inr env)
        with v \<open>r = Inr vd\<close> Authentic show ?thesis
          by (auto simp: handler_readable catch_def split: prod.splits decision.splits sum.splits
              dest: deliver_status)
      qed
    qed
  qed
qed

lemma status_rejected_iff:
  "(status (fst (handler rt cfg m req outcome now)) = 401 \<or>
    status (fst (handler rt cfg m req outcome now)) = 403) =
   (\<exists>resp. snd (verify rt cfg req) = Inr (Rejected resp))"
proof -
  obtain effs r where v: "verify rt cfg req = (effs, r)" by (cases "verify rt cfg req")
  show ?thesis
  proof (cases r)
    case (Inl e)
    with v show ?thesis by (simp add: handler_verify_throws catch_def)
  next
    case (Inr vd)
    show ?thesis
    proof (cases vd)
      case (Rejected resp)
      with v Inr verify_shape [OF v] show ?thesis by (auto simp: handler_rejected)
    next
      case (Authentic b)
      show ?thesis
      proof (cases "parse_envelope rt b")
        case (Inl e)
        with v Inr Authentic show ?thesis by (simp add: handler_unreadable catch_def)
      next
        case (Inr env)
        with v \<open>r = Inr vd\<close> Authentic show ?thesis
          by (auto simp: handler_readable catch_def split: prod.splits decision.splits sum.splits
              dest: deliver_status)
      qed
    qed
  qed
qed

lemma sample_digest_length: "length (Buffer_from sample_digest) = 64"
  by (simp add: Buffer_from_def utf8_of_char_def sample_digest_def)

lemma sample_forged:
  "verify sample_runtime sample_config \<lparr>x_plane_signature = Some ''abc'', body = Some b\<rparr> =
     ([], Inr (Rejected \<lparr>status = 403, send = ''Forbidden''\<rparr>))"
  by (simp add: verify_def sample_runtime_def sample_config_def Let_def sample_digest_length)
     (simp add: Buffer_from_def utf8_of_char_def)

lemma expiry_callback_cases:
  "expiry_callback k ts m =
     (if \<exists>r c. m k = Some r \<and> timestamp r = Num c \<and> ts = Num c then m(k := None) else m)"
proof (cases "m k")
  case None
  then show ?thesis by (simp add: expiry_callback_def)
next
  case (Some r)
  then show ?thesis
    by (cases "timestamp r"; cases ts) (auto simp: expiry_callback_def)
qed

lemma parse_envelope_timestamp:
  "parse_envelope rt b = Inr env \<Longrightarrow>
   Date_getTime rt (get_prop (env_data env) ''updated_at'') = Inr (incomingTimestamp env)"
  by (auto simp: parse_envelope_def Let_def split: option.splits if_splits sum.splits)

lemma observe_other_key: "k' \<noteq> k \<Longrightarrow> fst (snd (observe m k t a)) k' = m k'"
  by (cases "m k") (simp_all add: observe_absent observe_present)

lemma observe_nan_record:
  "m k = Some r \<Longrightarrow> timestamp r = NaN \<Longrightarrow>
   observe m k t a = (Reset, m(k \<mapsto> \<lparr>timestamp = t, action = a\<rparr>), [])"
  by (simp add: observe_present)

lemma handler_table_cases:
  "fst (snd (handler rt cfg m req outcome now)) = m \<and> request_key rt cfg req = None \<or>
   (\<exists>effs b env. verify rt cfg req = (effs, Inr (Authentic b)) \<and> parse_envelope rt b = Inr env \<and>
      request_key rt cfg req = Some (sequenceKey env) \<and>
      fst (snd (handler rt cfg m req outcome now)) =
        fst (snd (observe m (sequenceKey env) (incomingTimestamp env) (env_action env))))"
proof -
  obtain effs r where v: "verify rt cfg req = (effs, r)" by (cases "verify rt cfg req")
  show ?thesis
  proof (cases r)
    case (Inl e)
    with v show ?thesis by (simp add: handler_verify_throws catch_def request_key_def)
  next
    case (Inr vd)
    show ?thesis
    proof (cases vd)
      case (Rejected resp)
      with v Inr show ?thesis by (simp add: handler_rejected request_key_def)
    next
      case (Authentic b)
      show ?thesis
      proof (cases "parse_envelope rt b")
        case (Inl e)
        with v Inr Authentic show ?thesis by (simp add: handler_unreadable catch_def request_key_def)
      next
        case (Inr env)
        from v \<open>r = Inr vd\<close> Authentic have v': "verify rt cfg req = (effs, Inr (Authentic b))" by simp
        have "fst (snd (handler rt cfg m req outcome now)) =
            fst (snd (observe m (sequenceKey env) (incomingTimestamp env) (env_action env)))"
          using handler_authentic [OF v' Inr triple_eq] .
        with v' Inr show ?thesis by (auto simp: request_key_def)
      qed
    qed
  qed
qed

lemma handler_other_key:
  "request_key rt cfg req \<noteq> Some k \<Longrightarrow> fst (snd (handler rt cfg m req outcome now)) k = m k"
  using handler_table_cases [of rt cfg m req outcome now]
  by (auto simp: observe_other_key)

lemma table_step_incoming:
  "table (step rt cfg p (Incoming req outcome now)) =
     fst (snd (handler rt cfg (table p) req outcome now))"
  by (simp split: prod.splits)

lemma expiry_keeps_nan:
  "m k = Some r \<Longrightarrow> timestamp r = NaN \<Longrightarrow> expiry_callback k' ts m k = Some r"
  by (auto simp: expiry_callback_cases)

lemma step_spares:
  assumes "table p k = Some r" and "timestamp r = NaN" and "spares rt cfg k e"
  shows "table (step rt cfg p e) k = Some r"
proof (cases e)
  case (Incoming req outcome now)
  with assms(3) have "request_key rt cfg req \<noteq> Some k" by (simp add: spares_def)
  from handler_other_key [OF this, of "table p" outcome now] assms(1) Incoming
  show ?thesis by (simp only: table_step_incoming)
next
  case (TimerFires i)
  with assms(1,2) show ?thesis by (simp add: expiry_keeps_nan)
qed

lemma run_spares:
  "table p k = Some r \<Longrightarrow> timestamp r = NaN \<Longrightarrow> \<forall>e \<in> set es. spares rt cfg k e \<Longrightarrow>
   table (run rt cfg p es) k = Some r"
proof (induction es arbitrary: p)
  case Nil
  then show ?case by simp
next
  case (Cons e es)
  from Cons.prems have "table (step rt cfg p e) k = Some r"
    by (intro step_spares) simp_all
  with Cons show ?case by simp
qed

lemma handler_resets_nan:
  assumes "m k = Some r" and "timestamp r = NaN" and "request_key rt cfg req = Some k"
  shows "fst (handler rt cfg m req outcome now) = \<lparr>status = 200, send = ''Window reset''\<rparr> \<and>
         (\<exists>effs b env. verify rt cfg req = (effs, Inr (Authentic b)) \<and>
            parse_envelope rt b = Inr env \<and> sequenceKey env = k \<and>
            fst (snd (handler rt cfg m req outcome now)) =
              m(k \<mapsto> \<lparr>timestamp = incomingTimestamp env, action = env_action env\<rparr>)) \<and>
         filter is_fetch (snd (snd (handler rt cfg m req outcome now))) = []"
proof -
  from assms(3) handler_table_cases [of rt cfg m req outcome now]
  obtain effs b env where v: "verify rt cfg req = (effs, Inr (Authentic b))"
    and e: "parse_envelope rt b = Inr env" and k: "sequenceKey env = k"
    by auto
  have h: "handler rt cfg m req outcome now =
      (\<lparr>status = 200, send = ''Window reset''\<rparr>,
       m(k \<mapsto> \<lparr>timestamp = incomingTimestamp env, action = env_action env\<rparr>), effs)"
    using assms(1,2) by (simp add: handler_readable [OF v e] k observe_nan_record)
  from v e k h verify_no_fetch [OF v] show ?thesis
    by auto
qed

lemma sample_request_key: "request_key sample_runtime sample_config (signed ''bare'') = Some ''undefined:undefined''"
  by (simp add: request_key_def sample_verify sample_envelope_bare)

lemma sample_request_key_first: "request_key sample_runtime sample_config (signed ''first'') = Some ''issue:7''"
  by (simp add: request_key_def sample_verify sample_envelope_first)

lemma observe_reset_schedules_nothing:
  "fst (observe m k t a) = Reset \<Longrightarrow> snd (snd (observe m k t a)) = []"
  by (cases "m k") (auto simp: observe_absent observe_present split: if_splits)

lemma sample_first_cached:
  "handler sample_runtime sample_config Map.empty (signed ''first'') outcome now =
     (\<lparr>status = 200, send = ''Initial event cached''\<rparr>,
      [''issue:7'' \<mapsto> \<lparr>timestamp = Num 1000, action = JStr ''updated''\<rparr>],
      [CallTimingSafeEqual (Buffer_from sample_digest) (Buffer_from sample_digest),
       SetTimeout ''issue:7'' (Num 1000) WINDOW_MS])"
  by (simp add: handler_readable [OF sample_verify sample_envelope_first] observe_absent)

lemma sample_late_reset:
  "handler sample_runtime sample_config
     [''issue:7'' \<mapsto> \<lparr>timestamp = Num 1000, action = JStr ''updated''\<rparr>] (signed ''late'') outcome now =
     (\<lparr>status = 200, send = ''Window reset''\<rparr>,
      [''issue:7'' \<mapsto> \<lparr>timestamp = Num 3000, action = JStr ''updated''\<rparr>],
      [CallTimingSafeEqual (Buffer_from sample_digest) (Buffer_from sample_digest)])"
  by (simp add: handler_readable [OF sample_verify sample_envelope_late] observe_present)

lemma handler_comparisons:
  "CallTimingSafeEqual a b \<in> set (snd (snd (handler rt cfg m req outcome now))) \<Longrightarrow>
   length a = length b"
proof -
  assume c: "CallTimingSafeEqual a b \<in> set (snd (snd (handler rt cfg m req outcome now)))"
  obtain effs r where v: "verify rt cfg req = (effs, r)" by (cases "verify rt cfg req")
  from verify_shape [OF v] have e: "CallTimingSafeEqual a b \<in> set effs \<Longrightarrow> length a = length b"
    by auto
  show ?thesis
  proof (cases r)
    case (Inl e)
    with v c \<open>CallTimingSafeEqual a b \<in> set effs \<Longrightarrow> length a = length b\<close>
    show ?thesis by (auto simp: handler_verify_throws catch_def)
  next
    case (Inr vd)
    show ?thesis
    proof (cases vd)
      case (Rejected resp)
      with v Inr c e show ?thesis by (auto simp: handler_rejected)
    next
      case (Authentic b')
      show ?thesis
      proof (cases "parse_envelope rt b'")
        case (Inl er)
        with v Inr Authentic c e show ?thesis by (auto simp: handler_unreadable catch_def)
      next
        case (Inr env)
        with v \<open>r = Inr vd\<close> Authentic c e show ?thesis
          by (cases "m (sequenceKey env)")
             (auto simp: handler_readable catch_def observe_absent observe_present
               split: prod.splits decision.splits sum.splits if_splits dest: deliver_status)
      qed
    qed
  qed
qed

lemma verify_no_body:
  assumes "WebhookSecret cfg = Some secret" and "secret \<noteq> []"
    and "x_plane_signature req = Some sig" and "sig \<noteq> []" and "body req = None"
  shows "verify rt cfg req = ([], Inl TypeError)"
  using assms by (simp add: verify_def)

lemma parse_envelope_ok_iff:
  "(\<exists>env. parse_envelope rt b = Inr env) =
     (\<exists>v. JSON_parse rt b = Some v \<and> \<not> nullish v \<and> \<not> nullish (get_prop v ''data'') \<and>
        (\<exists>t. Date_getTime rt (get_prop (get_prop v ''data'') ''updated_at'') = Inr t) \<and>
        (\<exists>s. ToString (get_prop v ''event'') = Inr s) \<and>
        (\<exists>s. ToString (get_prop (get_prop v ''data'') ''id'') = Inr s))"
  by (auto simp: parse_envelope_def Let_def split: option.splits sum.splits)

lemma verify_missing:
  "missing (WebhookSecret cfg) \<or> missing (x_plane_signature req) \<Longrightarrow>
   verify rt cfg req = ([], Inr (Rejected \<lparr>status = 401, send = ''Unauthorized''\<rparr>))"
  by (cases "WebhookSecret cfg"; cases "x_plane_signature req") (auto simp: verify_def)

lemma verify_mismatch:
  assumes "WebhookSecret cfg = Some secret" and "secret \<noteq> []"
    and "x_plane_signature req = Some sig" and "sig \<noteq> []" and "body req = Some b"
    and "Buffer_from sig \<noteq> Buffer_from (hmac_sha256_hex rt secret b)"
  shows "\<exists>effs. verify rt cfg req = (effs, Inr (Rejected \<lparr>status = 403, send = ''Forbidden''\<rparr>))"
  using assms by (auto simp: verify_def Let_def timingSafeEqual_def)

lemma parse_envelope_unreadable:
  "JSON_parse rt b = None \<or> (\<exists>v. JSON_parse rt b = Some v \<and> (nullish v \<or> nullish (get_prop v ''data'')))
   \<Longrightarrow> \<exists>e. parse_envelope rt b = Inl e"
  by (auto simp: parse_envelope_def Let_def)

lemma set_filter_fetch: "(filter is_fetch xs = []) = (\<forall>u bdy. Fetch u bdy \<notin> set xs)"
  by (induction xs) (auto simp: is_fetch_def split: effect.splits)

lemma handler_not_completed:
  assumes "verify rt cfg req = (effs, Inr (Authentic b))" and "parse_envelope rt b = Inr env"
    and "fst (observe m (sequenceKey env) (incomingTimestamp env) (env_action env)) \<noteq> Completed"
  shows "status (fst (handler rt cfg m req outcome now)) = 200 \<and>
         filter is_fetch (snd (snd (handler rt cfg m req outcome now))) = []"
proof (cases "m (sequenceKey env)")
  case None
  with assms verify_no_fetch [OF assms(1)] show ?thesis
    by (simp add: handler_readable observe_absent is_fetch_def)
next
  case (Some r)
  with assms verify_no_fetch [OF assms(1)] show ?thesis
    by (auto simp: handler_readable observe_present is_fetch_def split: if_splits)
qed

lemma handler_embed_fails:
  assumes "verify rt cfg req = (effs, Inr (Authentic b))" and "parse_envelope rt b = Inr env"
    and "fst (observe m (sequenceKey env) (incomingTimestamp env) (env_action env)) = Completed"
    and "build_embed rt env now = Inl e"
  shows "handler rt cfg m req outcome now =
           catch e (m(sequenceKey env := None)) effs"
proof (cases "m (sequenceKey env)")
  case None
  with assms show ?thesis by (simp add: observe_absent)
next
  case (Some r)
  with assms show ?thesis
    by (auto simp: handler_readable observe_present split: if_splits)
qed

lemma handler_delivers:
  assumes "verify rt cfg req = (effs, Inr (Authentic b))" and "parse_envelope rt b = Inr env"
    and "fst (observe m (sequenceKey env) (incomingTimestamp env) (env_action env)) = Completed"
    and "build_embed rt env now = Inr emb"
  shows "handler rt cfg m req outcome now =
     (let call = Fetch (DiscordWebhookUrl cfg) (JSON_stringify rt (JObj [(''embeds'', JArr [emb])])) in
      case outcome of
        NetworkError \<Rightarrow> catch FetchFailed (m(sequenceKey env := None)) (effs @ [call])
      | Response s \<Rightarrow>
          if ok s
          then (\<lparr>status = 200, send = ''Sequence complete''\<rparr>, m(sequenceKey env := None), effs @ [call])
          else catch (DiscordApiError s) (m(sequenceKey env := None)) (effs @ [call]))"
proof (cases "m (sequenceKey env)")
  case None
  with assms show ?thesis by (simp add: observe_absent)
next
  case (Some r)
  with assms show ?thesis
    by (auto simp: handler_readable observe_present deliver_def Let_def
        split: if_splits fetch_outcome.splits)
qed

lemma handler_fetch_cases:
  "filter is_fetch (snd (snd (handler rt cfg m req outcome now))) = [] \<or>
   (\<exists>effs b env emb. verify rt cfg req = (effs, Inr (Authentic b)) \<and> parse_envelope rt b = Inr env \<and>
      fst (observe m (sequenceKey env) (incomingTimestamp env) (env_action env)) = Completed \<and>
      build_embed rt env now = Inr emb \<and>
      filter is_fetch (snd (snd (handler rt cfg m req outcome now))) =
        [Fetch (DiscordWebhookUrl cfg) (JSON_stringify rt (JObj [(''embeds'', JArr [emb])]))])"
proof -
  obtain effs r where v: "verify rt cfg req = (effs, r)" by (cases "verify rt cfg req")
  note nf = verify_no_fetch [OF v]
  show ?thesis
  proof (cases r)
    case (Inl e)
    with v nf show ?thesis by (simp add: handler_verify_throws catch_def is_fetch_def)
  next
    case (Inr vd)
    show ?thesis
    proof (cases vd)
      case (Rejected resp)
      with v Inr nf show ?thesis by (simp add: handler_rejected)
    next
      case (Authentic b)
      with v Inr have v': "verify rt cfg req = (effs, Inr (Authentic b))" by simp
      show ?thesis
      proof (cases "parse_envelope rt b")
        case (Inl e)
        with v' nf show ?thesis by (simp add: handler_unreadable catch_def is_fetch_def)
      next
        case e: (Inr env)
        show ?thesis
        proof (cases "fst (observe m (sequenceKey env) (incomingTimestamp env) (env_action env)) = Completed")
          case False
          with handler_not_completed [OF v' e] show ?thesis by simp
        next
          case True
          show ?thesis
          proof (cases "build_embed rt env now")
            case (Inl er)
            with nf show ?thesis
              by (simp add: handler_embed_fails [OF v' e True] catch_def is_fetch_def)
          next
            case (Inr emb)
            have "filter is_fetch (snd (snd (handler rt cfg m req outcome now))) =
                [Fetch (DiscordWebhookUrl cfg) (JSON_stringify rt (JObj [(''embeds'', JArr [emb])]))]"
              using nf
              by (simp add: handler_delivers [OF v' e True Inr] Let_def catch_def is_fetch_def
                  split: fetch_outcome.splits)
            with v' e True Inr show ?thesis by blast
          qed
        qed
      qed
    qed
  qed
qed

lemma handler_failed_delivery:
  assumes "Fetch u bdy \<in> set (snd (snd (handler rt cfg m req outcome now)))"
    and "outcome = NetworkError \<or> (\<exists>s. outcome = Response s \<and> \<not> ok s)"
  shows "status (fst (handler rt cfg m req outcome now)) = 500"
proof -
  from assms(1) have "filter is_fetch (snd (snd (handler rt cfg m req outcome now))) \<noteq> []"
    by (auto simp: set_filter_fetch)
  with handler_fetch_cases [of rt cfg m req outcome now]
  obtain effs b env emb where v: "verify rt cfg req = (effs, Inr (Authentic b))"
    and e: "parse_envelope rt b = Inr env"
    and c: "fst (observe m (sequenceKey env) (incomingTimestamp env) (env_action env)) = Completed"
    and f: "build_embed rt env now = Inr emb"
    by blast
  from assms(2) show ?thesis
    by (auto simp: handler_delivers [OF v e c f] Let_def catch_def)
qed

lemma sample_second_completed:
  "fst (observe [''issue:7'' \<mapsto> \<lparr>timestamp = Num t, action = a\<rparr>] ''issue:7'' (Num 1500) a') =
     (if 0 \<le> 1500 - t \<and> 1500 - t < 1500 then Completed else Reset)"
  by (simp add: observe_present)

lemma sample_upper:
  "toUpperCase sample_runtime ''issue'' = ''ISSUE''"
  "toUpperCase sample_runtime ''updated'' = ''UPDATED''"
  "toUpperCase sample_runtime ''done'' = ''DONE''"
  unfolding sample_runtime_def runtime.simps by code_simp+

lemma sample_embed_second:
  "build_embed sample_runtime
     \<lparr>env_event = JStr ''issue'', env_action = JStr ''updated'',
      env_data = JObj [(''id'', JNum ''7''), (''name'', JStr ''Fix login''),
                       (''updated_at'', JStr ''T+500'')],
      env_activity = JObj [(''field'', JStr ''state''), (''new_value'', JStr ''done''),
                           (''actor'', JObj [(''display_name'', JStr ''Ada'')])],
      incomingTimestamp = Num 1500, sequenceKey = ''issue:7''\<rparr> now =
   Inr (JObj
     [(''title'', JStr ''ISSUE UPDATED''),
      (''description'', JStr ''**Entity:** Fix login''),
      (''color'', JNum ''5282794''),
      (''fields'', JArr
         [JObj [(''name'', JStr ''Type''), (''value'', JStr ''state''), (''inline'', JBool True)],
          JObj [(''name'', JStr ''By''), (''value'', JStr ''Ada''), (''inline'', JBool True)],
          JObj [(''name'', JStr ''Content''), (''value'', JStr ''Issue is now in DONE'')]]),
      (''timestamp'', JStr now)])"
  by (simp add: build_embed_def content_def fieldType_def optchain_def nullish_or_def nullish_def
      js_or_def sample_upper)









section \<open>The decision on the table\<close>

text \<open>
  C1. For a request that passed the signature check and whose payload was read, the
  table the handler leaves is the one \<open>observe\<close> computes, and: on a key without a
  record the decision is \<open>Cached\<close> and the record of this observation is stored; on a
  key with a record whose timestamp lies \<open>delta\<close> before the incoming one, the decision
  is \<open>Completed\<close> and the record is deleted when \<open>0 \<le> delta < 1500\<close> (so \<open>0\<close> matches
  and \<open>1500\<close> does not), and otherwise (\<open>delta < 0\<close>, \<open>delta \<ge> 1500\<close>, or a timestamp
  that is NaN) it is \<open>Reset\<close> and the record of this observation replaces the old one.
  In each case the key holds no record or the new observation afterwards, and no
  other key changes.
\<close>

theorem observe_decides:
  assumes "verify rt cfg req = (effs, Inr (Authentic b))"
    and "parse_envelope rt b = Inr env"
    and "observe m (sequenceKey env) (incomingTimestamp env) (env_action env) = (d, m', timers)"
  shows "fst (snd (handler rt cfg m req outcome now)) = m' \<and>
     (m (sequenceKey env) = None \<longrightarrow>
        d = Cached \<and>
        m' = m(sequenceKey env \<mapsto> \<lparr>timestamp = incomingTimestamp env, action = env_action env\<rparr>)) \<and>
     (\<forall>r c i. m (sequenceKey env) = Some r \<and> timestamp r = Num c \<and> incomingTimestamp env = Num i \<and>
        0 \<le> i - c \<and> i - c < 1500 \<longrightarrow>
        d = Completed \<and> m' = m(sequenceKey env := None)) \<and>
     (\<forall>r c i. m (sequenceKey env) = Some r \<and> timestamp r = Num c \<and> incomingTimestamp env = Num i \<and>
        (i - c < 0 \<or> 1500 \<le> i - c) \<longrightarrow>
        d = Reset \<and>
        m' = m(sequenceKey env \<mapsto> \<lparr>timestamp = incomingTimestamp env, action = env_action env\<rparr>)) \<and>
     (\<forall>r. m (sequenceKey env) = Some r \<and> (timestamp r = NaN \<or> incomingTimestamp env = NaN) \<longrightarrow>
        d = Reset \<and>
        m' = m(sequenceKey env \<mapsto> \<lparr>timestamp = incomingTimestamp env, action = env_action env\<rparr>)) \<and>
     (m' (sequenceKey env) = None \<or>
      m' (sequenceKey env) = Some \<lparr>timestamp = incomingTimestamp env, action = env_action env\<rparr>) \<and>
     (\<forall>k'. k' \<noteq> sequenceKey env \<longrightarrow> m' k' = m k')"
proof -
  have tab: "fst (snd (handler rt cfg m req outcome now)) = m'"
    using assms by (rule handler_authentic)
  show ?thesis
  proof (cases "m (sequenceKey env)")
    case None
    from assms(3) None have "d = Cached"
      and "m' = m(sequenceKey env \<mapsto> \<lparr>timestamp = incomingTimestamp env, action = env_action env\<rparr>)"
      by (simp_all add: observe_absent)
    with None show ?thesis unfolding tab by simp
  next
    case (Some r)
    note present = observe_present [of m "sequenceKey env" r "incomingTimestamp env" "env_action env", OF Some]
    show ?thesis
    proof (cases "\<exists>i c. incomingTimestamp env = Num i \<and> timestamp r = Num c \<and> 0 \<le> i - c \<and> i - c < 1500")
      case True
      with present have "observe m (sequenceKey env) (incomingTimestamp env) (env_action env) =
          (Completed, m(sequenceKey env := None), [])"
        by (simp only: if_True)
      with assms(3) have "d = Completed" and "m' = m(sequenceKey env := None)"
        by simp_all
      with Some True show ?thesis unfolding tab by auto
    next
      case False
      with present have "observe m (sequenceKey env) (incomingTimestamp env) (env_action env) =
          (Reset, m(sequenceKey env \<mapsto> \<lparr>timestamp = incomingTimestamp env, action = env_action env\<rparr>), [])"
        by (simp only: if_False)
      with assms(3) have "d = Reset"
        and "m' = m(sequenceKey env \<mapsto> \<lparr>timestamp = incomingTimestamp env, action = env_action env\<rparr>)"
        by simp_all
      with Some False show ?thesis unfolding tab by auto
    qed
  qed
qed

theorem observe_decides_witness:
  "fst (snd (handler sample_runtime sample_config Map.empty (signed ''first'') NetworkError ''now''))
     = [''issue:7'' \<mapsto> \<lparr>timestamp = Num 1000, action = JStr ''updated''\<rparr>]
   \<and> fst (snd (handler sample_runtime sample_config
        [''issue:7'' \<mapsto> \<lparr>timestamp = Num 1000, action = JStr ''updated''\<rparr>]
        (signed ''second'') (Response 204) ''now'')) = Map.empty
   \<and> fst (snd (handler sample_runtime sample_config
        [''issue:7'' \<mapsto> \<lparr>timestamp = Num 1000, action = JStr ''updated''\<rparr>]
        (signed ''late'') (Response 204) ''now''))
     = [''issue:7'' \<mapsto> \<lparr>timestamp = Num 3000, action = JStr ''updated''\<rparr>]"
proof (intro conjI)
  show "fst (snd (handler sample_runtime sample_config Map.empty (signed ''first'') NetworkError ''now''))
     = [''issue:7'' \<mapsto> \<lparr>timestamp = Num 1000, action = JStr ''updated''\<rparr>]"
    using observe_decides [OF sample_verify sample_envelope_first triple_eq, of Map.empty NetworkError "''now''"]
    by simp
  show "fst (snd (handler sample_runtime sample_config
        [''issue:7'' \<mapsto> \<lparr>timestamp = Num 1000, action = JStr ''updated''\<rparr>]
        (signed ''second'') (Response 204) ''now'')) = Map.empty"
    using observe_decides [OF sample_verify sample_envelope_second triple_eq,
        of "[''issue:7'' \<mapsto> \<lparr>timestamp = Num 1000, action = JStr ''updated''\<rparr>]" "Response 204" "''now''"]
    by simp
  show "fst (snd (handler sample_runtime sample_config
        [''issue:7'' \<mapsto> \<lparr>timestamp = Num 1000, action = JStr ''updated''\<rparr>]
        (signed ''late'') (Response 204) ''now''))
     = [''issue:7'' \<mapsto> \<lparr>timestamp = Num 3000, action = JStr ''updated''\<rparr>]"
    using observe_decides [OF sample_verify sample_envelope_late triple_eq,
        of "[''issue:7'' \<mapsto> \<lparr>timestamp = Num 1000, action = JStr ''updated''\<rparr>]" "Response 204" "''now''"]
    by simp
qed

section \<open>Expiry\<close>




text \<open>
  C2. The claim asks that every record of the table is covered by a pending expiry
  that will remove it, and that a Reset schedules a fresh one. The handler schedules
  a timer only where it caches a first-seen event (lines 89 to 99); where it
  overwrites (lines 153 to 156) it schedules none. Run from the empty table: the first
  event is cached with its timer; a second event for the key, 2000 ms later by its
  timestamp, resets the record; the only pending timer is the one of the first record,
  and when it fires it finds another timestamp and does nothing. The record of the
  second event is then in the table with no timer pending.
\<close>

theorem reset_record_has_no_expiry:
  "run sample_runtime sample_config \<lparr>table = Map.empty, pending = []\<rparr>
     [Incoming (signed ''first'') (Response 204) ''now'',
      Incoming (signed ''late'') (Response 204) ''now'']
     = \<lparr>table = [''issue:7'' \<mapsto> \<lparr>timestamp = Num 3000, action = JStr ''updated''\<rparr>],
        pending = [(''issue:7'', Num 1000)]\<rparr>
   \<and> run sample_runtime sample_config \<lparr>table = Map.empty, pending = []\<rparr>
     [Incoming (signed ''first'') (Response 204) ''now'',
      Incoming (signed ''late'') (Response 204) ''now'',
      TimerFires 0]
     = \<lparr>table = [''issue:7'' \<mapsto> \<lparr>timestamp = Num 3000, action = JStr ''updated''\<rparr>],
        pending = []\<rparr>"
  by (simp add: sample_first_cached sample_late_reset expiry_callback_def)

text \<open>
  C10. A first-seen event whose \<open>data.updated_at\<close> is no valid date is cached with the
  timestamp NaN and a timer for NaN. While such a record is in the table: no expiry
  callback removes it, neither its own nor another one's, since \<^verbatim>\<open>===\<close> is false on
  NaN; \<open>observe\<close> on its key decides Reset whatever the incoming timestamp, never
  Completed; a request on its key is answered \<^verbatim>\<open>Window reset\<close> with no outbound call
  and overwrites the record with its own observation (its timestamp and action), the
  rest of the table staying as it was; and through any run of timers and of requests
  that do not work on its key the record stays as it is.
\<close>

theorem nan_record_pinned:
  "(\<forall>effs b env. verify rt cfg req = (effs, Inr (Authentic b)) \<and> parse_envelope rt b = Inr env \<and>
       Date_getTime rt (get_prop (env_data env) ''updated_at'') = Inr NaN \<and>
       m (sequenceKey env) = None \<longrightarrow>
       handler rt cfg m req outcome now =
         (\<lparr>status = 200, send = ''Initial event cached''\<rparr>,
          m(sequenceKey env \<mapsto> \<lparr>timestamp = NaN, action = env_action env\<rparr>),
          effs @ [SetTimeout (sequenceKey env) NaN WINDOW_MS]))
   \<and> (\<forall>r. table p k = Some r \<and> timestamp r = NaN \<longrightarrow>
         (\<forall>k' ts. expiry_callback k' ts (table p) k = Some r)
       \<and> (\<forall>i. table (step rt cfg p (TimerFires i)) k = Some r)
       \<and> (\<forall>t a. fst (observe (table p) k t a) = Reset)
       \<and> (\<forall>rq out nw. request_key rt cfg rq = Some k \<longrightarrow>
             fst (handler rt cfg (table p) rq out nw) = \<lparr>status = 200, send = ''Window reset''\<rparr> \<and>
             filter is_fetch (snd (snd (handler rt cfg (table p) rq out nw))) = [] \<and>
             (\<exists>effs b env. verify rt cfg rq = (effs, Inr (Authentic b)) \<and>
                parse_envelope rt b = Inr env \<and> sequenceKey env = k \<and>
                table (step rt cfg p (Incoming rq out nw)) =
                  (table p)(k \<mapsto> \<lparr>timestamp = incomingTimestamp env, action = env_action env\<rparr>)))
       \<and> (\<forall>es. (\<forall>e \<in> set es. spares rt cfg k e) \<longrightarrow> table (run rt cfg p es) k = Some r))"
proof (intro conjI allI impI)
  fix effs b env
  assume a: "verify rt cfg req = (effs, Inr (Authentic b)) \<and> parse_envelope rt b = Inr env \<and>
       Date_getTime rt (get_prop (env_data env) ''updated_at'') = Inr NaN \<and>
       m (sequenceKey env) = None"
  then have ts: "incomingTimestamp env = NaN"
    using parse_envelope_timestamp [of rt b env] by simp
  from a show "handler rt cfg m req outcome now =
         (\<lparr>status = 200, send = ''Initial event cached''\<rparr>,
          m(sequenceKey env \<mapsto> \<lparr>timestamp = NaN, action = env_action env\<rparr>),
          effs @ [SetTimeout (sequenceKey env) NaN WINDOW_MS])"
    by (simp add: handler_readable [of rt cfg req effs b env] observe_absent ts)
next
  fix r k' ts
  assume "table p k = Some r \<and> timestamp r = NaN"
  then show "expiry_callback k' ts (table p) k = Some r" by (simp add: expiry_keeps_nan)
next
  fix r i
  assume "table p k = Some r \<and> timestamp r = NaN"
  then show "table (step rt cfg p (TimerFires i)) k = Some r" by (simp add: expiry_keeps_nan)
next
  fix r t a
  assume "table p k = Some r \<and> timestamp r = NaN"
  then show "fst (observe (table p) k t a) = Reset" by (simp add: observe_nan_record)
next
  fix r rq out nw
  assume a: "table p k = Some r \<and> timestamp r = NaN" and b: "request_key rt cfg rq = Some k"
  from a b handler_resets_nan [of "table p" k r rt cfg rq out nw]
  show "fst (handler rt cfg (table p) rq out nw) = \<lparr>status = 200, send = ''Window reset''\<rparr>"
    and "filter is_fetch (snd (snd (handler rt cfg (table p) rq out nw))) = []"
    and "\<exists>effs b env. verify rt cfg rq = (effs, Inr (Authentic b)) \<and>
                parse_envelope rt b = Inr env \<and> sequenceKey env = k \<and>
                table (step rt cfg p (Incoming rq out nw)) =
                  (table p)(k \<mapsto> \<lparr>timestamp = incomingTimestamp env, action = env_action env\<rparr>)"
    by (auto simp only: table_step_incoming)
next
  fix r es
  assume "table p k = Some r \<and> timestamp r = NaN" and "\<forall>e \<in> set es. spares rt cfg k e"
  then show "table (run rt cfg p es) k = Some r" by (simp add: run_spares)
qed

theorem nan_record_pinned_witness:
  "handler sample_runtime sample_config Map.empty (signed ''bare'') NetworkError ''now'' =
     (\<lparr>status = 200, send = ''Initial event cached''\<rparr>,
      [''undefined:undefined'' \<mapsto> \<lparr>timestamp = NaN, action = JUndefined\<rparr>],
      [CallTimingSafeEqual (Buffer_from sample_digest) (Buffer_from sample_digest),
       SetTimeout ''undefined:undefined'' NaN WINDOW_MS])
   \<and> table (run sample_runtime sample_config
        \<lparr>table = [''undefined:undefined'' \<mapsto> \<lparr>timestamp = NaN, action = JUndefined\<rparr>],
         pending = [(''undefined:undefined'', NaN)]\<rparr>
        [TimerFires 0, Incoming (signed ''first'') (Response 204) ''now'']) ''undefined:undefined''
     = Some \<lparr>timestamp = NaN, action = JUndefined\<rparr>
   \<and> fst (handler sample_runtime sample_config
        [''undefined:undefined'' \<mapsto> \<lparr>timestamp = NaN, action = JUndefined\<rparr>]
        (signed ''bare'') (Response 204) ''now'') = \<lparr>status = 200, send = ''Window reset''\<rparr>
   \<and> table (step sample_runtime sample_config
        \<lparr>table = [''issue:7'' \<mapsto> \<lparr>timestamp = NaN, action = JStr ''stale''\<rparr>], pending = []\<rparr>
        (Incoming (signed ''first'') (Response 204) ''now''))
     = [''issue:7'' \<mapsto> \<lparr>timestamp = Num 1000, action = JStr ''updated''\<rparr>]"
proof -
  let ?k = "''undefined:undefined''"
  let ?r = "\<lparr>timestamp = NaN, action = JUndefined\<rparr>"
  let ?p = "\<lparr>table = [?k \<mapsto> ?r], pending = [(?k, NaN)]\<rparr>"
  note T = nan_record_pinned [of sample_runtime sample_config "signed ''bare''" Map.empty
      NetworkError "''now''" ?p ?k]
  have d: "Date_getTime sample_runtime (get_prop (JObj []) ''updated_at'') = Inr NaN"
    by (simp add: sample_runtime_def sample_date_def)
  have a: "handler sample_runtime sample_config Map.empty (signed ''bare'') NetworkError ''now'' =
     (\<lparr>status = 200, send = ''Initial event cached''\<rparr>, [?k \<mapsto> ?r],
      [CallTimingSafeEqual (Buffer_from sample_digest) (Buffer_from sample_digest),
       SetTimeout ?k NaN WINDOW_MS])"
    using T [THEN conjunct1, rule_format, OF conjI [OF sample_verify conjI [OF sample_envelope_bare]]] d
    by simp
  have rec: "table ?p ?k = Some ?r \<and> timestamp ?r = NaN" by simp
  note R = T [THEN conjunct2, rule_format, OF rec]
  have sp: "e \<in> set [TimerFires 0, Incoming (signed ''first'') (Response 204) ''now''] \<Longrightarrow>
      spares sample_runtime sample_config ?k e" for e
    by (auto simp: spares_def sample_request_key_first)
  have b: "table (run sample_runtime sample_config ?p
        [TimerFires 0, Incoming (signed ''first'') (Response 204) ''now'']) ?k = Some ?r"
    using R [THEN conjunct2, THEN conjunct2, THEN conjunct2, THEN conjunct2, rule_format, OF sp] .
  have c: "fst (handler sample_runtime sample_config [?k \<mapsto> ?r] (signed ''bare'') (Response 204) ''now'')
      = \<lparr>status = 200, send = ''Window reset''\<rparr>"
    using R [THEN conjunct2, THEN conjunct2, THEN conjunct2, THEN conjunct1, rule_format,
        OF sample_request_key, of "Response 204" "''now''"]
    by simp
  let ?q = "\<lparr>table = [''issue:7'' \<mapsto> \<lparr>timestamp = NaN, action = JStr ''stale''\<rparr>], pending = []\<rparr>"
  have rec': "table ?q ''issue:7'' = Some \<lparr>timestamp = NaN, action = JStr ''stale''\<rparr> \<and>
      timestamp \<lparr>timestamp = NaN, action = JStr ''stale''\<rparr> = NaN"
    by simp
  note Q = nan_record_pinned [of sample_runtime sample_config "signed ''bare''" Map.empty
      NetworkError "''now''" ?q "''issue:7''", THEN conjunct2, rule_format, OF rec']
  have d': "table (step sample_runtime sample_config ?q (Incoming (signed ''first'') (Response 204) ''now''))
     = [''issue:7'' \<mapsto> \<lparr>timestamp = Num 1000, action = JStr ''updated''\<rparr>]"
    using Q [THEN conjunct2, THEN conjunct2, THEN conjunct2, THEN conjunct1, rule_format,
        OF sample_request_key_first, of "Response 204" "''now''"]
    by (auto simp: sample_verify sample_envelope_first)
  from a b c d' show ?thesis by simp
qed

section \<open>Rejected requests\<close>

text \<open>
  C9. A request answered with 401 or 403 (these statuses come only from the signature
  check) leaves the table as it was, schedules no timer and makes no outbound call:
  the process is in the same state after it.
\<close>

theorem rejection_leaves_table:
  assumes "status (fst (handler rt cfg (table p) req outcome now)) = 401 \<or>
           status (fst (handler rt cfg (table p) req outcome now)) = 403"
  shows "fst (snd (handler rt cfg (table p) req outcome now)) = table p
       \<and> scheduled (snd (snd (handler rt cfg (table p) req outcome now))) = []
       \<and> filter is_fetch (snd (snd (handler rt cfg (table p) req outcome now))) = []
       \<and> step rt cfg p (Incoming req outcome now) = p"
proof -
  from assms obtain resp where "snd (verify rt cfg req) = Inr (Rejected resp)"
    unfolding status_rejected_iff by blast
  then obtain effs where v: "verify rt cfg req = (effs, Inr (Rejected resp))"
    by (cases "verify rt cfg req") simp
  have h: "handler rt cfg (table p) req outcome now = (resp, table p, effs)"
    using v by (rule handler_rejected)
  show ?thesis
    using verify_schedules_nothing [OF v] verify_no_fetch [OF v]
    by (simp add: h)
qed

theorem rejection_leaves_table_witness:
  "status (fst (handler sample_runtime sample_config
       [''issue:7'' \<mapsto> \<lparr>timestamp = Num 1000, action = JStr ''updated''\<rparr>]
       \<lparr>x_plane_signature = Some ''abc'', body = Some ''second''\<rparr> (Response 204) ''now'')) = 403
   \<and> step sample_runtime sample_config
       \<lparr>table = [''issue:7'' \<mapsto> \<lparr>timestamp = Num 1000, action = JStr ''updated''\<rparr>],
        pending = [(''issue:7'', Num 1000)]\<rparr>
       (Incoming \<lparr>x_plane_signature = Some ''abc'', body = Some ''second''\<rparr> (Response 204) ''now'')
     = \<lparr>table = [''issue:7'' \<mapsto> \<lparr>timestamp = Num 1000, action = JStr ''updated''\<rparr>],
        pending = [(''issue:7'', Num 1000)]\<rparr>"
proof -
  let ?m = "[''issue:7'' \<mapsto> \<lparr>timestamp = Num 1000, action = JStr ''updated''\<rparr>]"
  let ?req = "\<lparr>x_plane_signature = Some ''abc'', body = Some ''second''\<rparr>"
  have h: "status (fst (handler sample_runtime sample_config ?m ?req (Response 204) ''now'')) = 403"
    by (simp add: handler_rejected [OF sample_forged])
  with rejection_leaves_table [of sample_runtime sample_config
      "\<lparr>table = ?m, pending = [(''issue:7'', Num 1000)]\<rparr>" ?req "Response 204" "''now''"]
  show ?thesis by simp
qed

section \<open>The signature check\<close>

text \<open>
  C4, as amended. When the secret is set, the request has a body, and it carries a
  signature whose byte length differs from that of the expected hex digest of the
  body, the handler answers without calling the comparator, without touching the
  table and without logging a fault: with 403 when the signature is not empty, and
  with 401 when it is the empty string (line 61 takes an empty header value for a
  missing one). On every request the comparator is called only on buffers of equal
  length, and the signature check never raises the comparator's RangeError.
\<close>

theorem length_mismatch_rejected:
  assumes "WebhookSecret cfg = Some secret" and "secret \<noteq> []"
    and "x_plane_signature req = Some sig" and "body req = Some b"
    and "length (Buffer_from sig) \<noteq> length (Buffer_from (hmac_sha256_hex rt secret b))"
  shows "handler rt cfg m req outcome now =
           (if sig = [] then \<lparr>status = 401, send = ''Unauthorized''\<rparr>
            else \<lparr>status = 403, send = ''Forbidden''\<rparr>, m, [])
       \<and> (\<forall>x y cfg' m' req' outcome' now'.
             CallTimingSafeEqual x y \<in> set (snd (snd (handler rt cfg' m' req' outcome' now'))) \<longrightarrow>
             length x = length y)
       \<and> (\<forall>cfg' req'. snd (verify rt cfg' req') \<noteq> Inl RangeError)"
proof (intro conjI allI impI)
  have "verify rt cfg req =
      ([], Inr (Rejected (if sig = [] then \<lparr>status = 401, send = ''Unauthorized''\<rparr>
            else \<lparr>status = 403, send = ''Forbidden''\<rparr>)))"
    using assms by (simp add: verify_def Let_def)
  then show "handler rt cfg m req outcome now =
           (if sig = [] then \<lparr>status = 401, send = ''Unauthorized''\<rparr>
            else \<lparr>status = 403, send = ''Forbidden''\<rparr>, m, [])"
    by (rule handler_rejected)
next
  fix x y cfg' m' req' outcome' now'
  assume "CallTimingSafeEqual x y \<in> set (snd (snd (handler rt cfg' m' req' outcome' now')))"
  then show "length x = length y" by (rule handler_comparisons)
next
  fix cfg' req'
  from verify_shape [of rt cfg' req' "fst (verify rt cfg' req')" "snd (verify rt cfg' req')"]
  show "snd (verify rt cfg' req') \<noteq> Inl RangeError" by simp
qed

theorem length_mismatch_rejected_witness:
  "handler sample_runtime sample_config
     [''issue:7'' \<mapsto> \<lparr>timestamp = Num 1000, action = JStr ''updated''\<rparr>]
     \<lparr>x_plane_signature = Some ''abc'', body = Some ''second''\<rparr> (Response 204) ''now'' =
     (\<lparr>status = 403, send = ''Forbidden''\<rparr>,
      [''issue:7'' \<mapsto> \<lparr>timestamp = Num 1000, action = JStr ''updated''\<rparr>], [])"
proof -
  have l: "length (Buffer_from ''abc'') \<noteq>
      length (Buffer_from (hmac_sha256_hex sample_runtime ''s3cret'' ''second''))"
    by (simp add: sample_runtime_def sample_digest_length) (simp add: Buffer_from_def utf8_of_char_def)
  have s: "WebhookSecret sample_config = Some ''s3cret''" by (simp add: sample_config_def)
  from length_mismatch_rejected [OF s _ _ _ l,
      of "\<lparr>x_plane_signature = Some ''abc'', body = Some ''second''\<rparr>"
         "[''issue:7'' \<mapsto> \<lparr>timestamp = Num 1000, action = JStr ''updated''\<rparr>]" "Response 204" "''now''"]
  show ?thesis by simp
qed

text \<open>
  Against C4 as stated: the empty signature has a byte length (0) different from the
  digest's, and the handler answers it with 401, not 403.
\<close>

theorem empty_signature_is_unauthorized:
  "x_plane_signature \<lparr>x_plane_signature = Some [], body = Some ''second''\<rparr> = Some []
   \<and> length (Buffer_from []) \<noteq> length (Buffer_from (hmac_sha256_hex sample_runtime ''s3cret'' ''second''))
   \<and> handler sample_runtime sample_config Map.empty
        \<lparr>x_plane_signature = Some [], body = Some ''second''\<rparr> (Response 204) ''now'' =
       (\<lparr>status = 401, send = ''Unauthorized''\<rparr>, Map.empty, [])"
proof -
  have v: "verify sample_runtime sample_config \<lparr>x_plane_signature = Some [], body = Some ''second''\<rparr> =
      ([], Inr (Rejected \<lparr>status = 401, send = ''Unauthorized''\<rparr>))"
    by (simp add: verify_def sample_config_def)
  have l0: "length (Buffer_from []) = 0"
    by (simp add: Buffer_from_def)
  have l64: "length (Buffer_from (hmac_sha256_hex sample_runtime ''s3cret'' ''second'')) = 64"
    by (simp add: sample_runtime_def sample_digest_length)
  have "length (Buffer_from []) \<noteq> length (Buffer_from (hmac_sha256_hex sample_runtime ''s3cret'' ''second''))"
    unfolding l0 l64 by simp
  with handler_rejected [OF v] show ?thesis by simp
qed

section \<open>Response codes\<close>

text \<open>
  C5, as amended. A missing or empty secret or signature gives 401. With both
  present: a request without a body gives 500 (\<^verbatim>\<open>hmac.update\<close> throws), and a request
  with a body whose signature differs from the expected digest in length or content
  gives 403. An authenticated payload that cannot be read gives 500, with the table
  unchanged and no outbound call; so does, in particular, one that is not JSON, that
  is \<^verbatim>\<open>null\<close>, or whose \<open>data\<close> is \<^verbatim>\<open>undefined\<close> or \<^verbatim>\<open>null\<close>. A payload can be read
  exactly when it parses to a value that is not \<^verbatim>\<open>null\<close>, its \<open>data\<close> is neither
  \<^verbatim>\<open>undefined\<close> nor \<^verbatim>\<open>null\<close>, and the conversions of \<open>data.updated_at\<close> to a date and
  of \<open>event\<close> and \<open>data.id\<close> to strings do not throw: no field is required to be
  there. A payload that is read gets 200 unless the decision is Completed. On
  Completed, a fault while the embed is built gives 500 with no outbound call; an
  outbound call that fails, or that the sink answers with a status outside 200 to
  299, gives 500; one that the sink answers with a status from 200 to 299 gives 200.
\<close>

theorem response_taxonomy:
  "(missing (WebhookSecret cfg) \<or> missing (x_plane_signature req) \<longrightarrow>
      status (fst (handler rt cfg m req outcome now)) = 401)
   \<and> (\<forall>secret sig b. WebhookSecret cfg = Some secret \<and> secret \<noteq> [] \<and>
        x_plane_signature req = Some sig \<and> sig \<noteq> [] \<and> body req = Some b \<and>
        Buffer_from sig \<noteq> Buffer_from (hmac_sha256_hex rt secret b) \<longrightarrow>
        status (fst (handler rt cfg m req outcome now)) = 403)
   \<and> (\<forall>effs b. verify rt cfg req = (effs, Inr (Authentic b)) \<and>
        (JSON_parse rt b = None \<or>
         (\<exists>v. JSON_parse rt b = Some v \<and> (nullish v \<or> nullish (get_prop v ''data'')))) \<longrightarrow>
        status (fst (handler rt cfg m req outcome now)) = 500 \<and>
        fst (snd (handler rt cfg m req outcome now)) = m \<and>
        filter is_fetch (snd (snd (handler rt cfg m req outcome now))) = [])
   \<and> (\<forall>effs b env. verify rt cfg req = (effs, Inr (Authentic b)) \<and> parse_envelope rt b = Inr env \<and>
        fst (observe m (sequenceKey env) (incomingTimestamp env) (env_action env)) \<noteq> Completed \<longrightarrow>
        status (fst (handler rt cfg m req outcome now)) = 200)
   \<and> (\<forall>u bdy. Fetch u bdy \<in> set (snd (snd (handler rt cfg m req outcome now))) \<and>
        (outcome = NetworkError \<or> (\<exists>s. outcome = Response s \<and> \<not> ok s)) \<longrightarrow>
        status (fst (handler rt cfg m req outcome now)) = 500)
   \<and> (\<forall>secret sig. WebhookSecret cfg = Some secret \<and> secret \<noteq> [] \<and>
        x_plane_signature req = Some sig \<and> sig \<noteq> [] \<and> body req = None \<longrightarrow>
        status (fst (handler rt cfg m req outcome now)) = 500 \<and>
        fst (snd (handler rt cfg m req outcome now)) = m \<and>
        filter is_fetch (snd (snd (handler rt cfg m req outcome now))) = [])
   \<and> (\<forall>effs b e. verify rt cfg req = (effs, Inr (Authentic b)) \<and> parse_envelope rt b = Inl e \<longrightarrow>
        status (fst (handler rt cfg m req outcome now)) = 500 \<and>
        fst (snd (handler rt cfg m req outcome now)) = m \<and>
        filter is_fetch (snd (snd (handler rt cfg m req outcome now))) = [])
   \<and> (\<forall>b. (\<exists>env. parse_envelope rt b = Inr env) =
        (\<exists>v. JSON_parse rt b = Some v \<and> \<not> nullish v \<and> \<not> nullish (get_prop v ''data'') \<and>
           (\<exists>t. Date_getTime rt (get_prop (get_prop v ''data'') ''updated_at'') = Inr t) \<and>
           (\<exists>s. ToString (get_prop v ''event'') = Inr s) \<and>
           (\<exists>s. ToString (get_prop (get_prop v ''data'') ''id'') = Inr s)))
   \<and> (\<forall>effs b env e. verify rt cfg req = (effs, Inr (Authentic b)) \<and> parse_envelope rt b = Inr env \<and>
        fst (observe m (sequenceKey env) (incomingTimestamp env) (env_action env)) = Completed \<and>
        build_embed rt env now = Inl e \<longrightarrow>
        status (fst (handler rt cfg m req outcome now)) = 500 \<and>
        filter is_fetch (snd (snd (handler rt cfg m req outcome now))) = [])
   \<and> (\<forall>effs b env emb s. verify rt cfg req = (effs, Inr (Authentic b)) \<and> parse_envelope rt b = Inr env \<and>
        fst (observe m (sequenceKey env) (incomingTimestamp env) (env_action env)) = Completed \<and>
        build_embed rt env now = Inr emb \<and> outcome = Response s \<and> ok s \<longrightarrow>
        status (fst (handler rt cfg m req outcome now)) = 200)"
proof (intro conjI allI impI)
  assume "missing (WebhookSecret cfg) \<or> missing (x_plane_signature req)"
  from verify_missing [OF this, of rt]
  show "status (fst (handler rt cfg m req outcome now)) = 401"
    by (simp add: handler_rejected)
next
  fix secret sig b
  assume a: "WebhookSecret cfg = Some secret \<and> secret \<noteq> [] \<and>
        x_plane_signature req = Some sig \<and> sig \<noteq> [] \<and> body req = Some b \<and>
        Buffer_from sig \<noteq> Buffer_from (hmac_sha256_hex rt secret b)"
  then obtain effs where "verify rt cfg req = (effs, Inr (Rejected \<lparr>status = 403, send = ''Forbidden''\<rparr>))"
    using verify_mismatch [of cfg secret req sig b rt] by blast
  then show "status (fst (handler rt cfg m req outcome now)) = 403"
    by (simp add: handler_rejected)
next
  fix effs b
  assume a: "verify rt cfg req = (effs, Inr (Authentic b)) \<and>
        (JSON_parse rt b = None \<or>
         (\<exists>v. JSON_parse rt b = Some v \<and> (nullish v \<or> nullish (get_prop v ''data''))))"
  then obtain e where e: "parse_envelope rt b = Inl e"
    using parse_envelope_unreadable [of rt b] by blast
  from a have v: "verify rt cfg req = (effs, Inr (Authentic b))" by simp
  from verify_no_fetch [OF v]
  show "status (fst (handler rt cfg m req outcome now)) = 500"
    and "fst (snd (handler rt cfg m req outcome now)) = m"
    and "filter is_fetch (snd (snd (handler rt cfg m req outcome now))) = []"
    by (simp_all add: handler_unreadable [OF v e] catch_def is_fetch_def)
next
  fix effs b env
  assume "verify rt cfg req = (effs, Inr (Authentic b)) \<and> parse_envelope rt b = Inr env \<and>
        fst (observe m (sequenceKey env) (incomingTimestamp env) (env_action env)) \<noteq> Completed"
  then show "status (fst (handler rt cfg m req outcome now)) = 200"
    using handler_not_completed [of rt cfg req effs b env m outcome now] by simp
next
  fix u bdy
  assume "Fetch u bdy \<in> set (snd (snd (handler rt cfg m req outcome now))) \<and>
        (outcome = NetworkError \<or> (\<exists>s. outcome = Response s \<and> \<not> ok s))"
  then show "status (fst (handler rt cfg m req outcome now)) = 500"
    using handler_failed_delivery [of u bdy rt cfg m req outcome now] by blast
next
  fix secret sig
  assume "WebhookSecret cfg = Some secret \<and> secret \<noteq> [] \<and>
        x_plane_signature req = Some sig \<and> sig \<noteq> [] \<and> body req = None"
  then have v: "verify rt cfg req = ([], Inl TypeError)"
    using verify_no_body [of cfg secret req sig rt] by blast
  show "status (fst (handler rt cfg m req outcome now)) = 500"
    and "fst (snd (handler rt cfg m req outcome now)) = m"
    and "filter is_fetch (snd (snd (handler rt cfg m req outcome now))) = []"
    by (simp_all add: handler_verify_throws [OF v] catch_def is_fetch_def)
next
  fix effs b e
  assume a: "verify rt cfg req = (effs, Inr (Authentic b)) \<and> parse_envelope rt b = Inl e"
  then have v: "verify rt cfg req = (effs, Inr (Authentic b))" and e: "parse_envelope rt b = Inl e"
    by simp_all
  from verify_no_fetch [OF v]
  show "status (fst (handler rt cfg m req outcome now)) = 500"
    and "fst (snd (handler rt cfg m req outcome now)) = m"
    and "filter is_fetch (snd (snd (handler rt cfg m req outcome now))) = []"
    by (simp_all add: handler_unreadable [OF v e] catch_def is_fetch_def)
next
  fix b
  show "(\<exists>env. parse_envelope rt b = Inr env) =
        (\<exists>v. JSON_parse rt b = Some v \<and> \<not> nullish v \<and> \<not> nullish (get_prop v ''data'') \<and>
           (\<exists>t. Date_getTime rt (get_prop (get_prop v ''data'') ''updated_at'') = Inr t) \<and>
           (\<exists>s. ToString (get_prop v ''event'') = Inr s) \<and>
           (\<exists>s. ToString (get_prop (get_prop v ''data'') ''id'') = Inr s))"
    by (rule parse_envelope_ok_iff)
next
  fix effs b env e
  assume a: "verify rt cfg req = (effs, Inr (Authentic b)) \<and> parse_envelope rt b = Inr env \<and>
        fst (observe m (sequenceKey env) (incomingTimestamp env) (env_action env)) = Completed \<and>
        build_embed rt env now = Inl e"
  then have v: "verify rt cfg req = (effs, Inr (Authentic b))" by simp
  from a have h: "handler rt cfg m req outcome now = catch e (m(sequenceKey env := None)) effs"
    using handler_embed_fails [of rt cfg req effs b env m now e outcome] by simp
  from verify_no_fetch [OF v]
  show "status (fst (handler rt cfg m req outcome now)) = 500"
    and "filter is_fetch (snd (snd (handler rt cfg m req outcome now))) = []"
    by (simp_all add: h catch_def is_fetch_def)
next
  fix effs b env emb s
  assume a: "verify rt cfg req = (effs, Inr (Authentic b)) \<and> parse_envelope rt b = Inr env \<and>
        fst (observe m (sequenceKey env) (incomingTimestamp env) (env_action env)) = Completed \<and>
        build_embed rt env now = Inr emb \<and> outcome = Response s \<and> ok s"
  then show "status (fst (handler rt cfg m req outcome now)) = 200"
    using handler_delivers [of rt cfg req effs b env m now emb outcome]
    by (simp add: Let_def)
qed

theorem response_taxonomy_witness:
  "status (fst (handler sample_runtime sample_config Map.empty
      \<lparr>x_plane_signature = None, body = Some ''first''\<rparr> (Response 204) ''now'')) = 401
   \<and> status (fst (handler sample_runtime sample_config Map.empty
      \<lparr>x_plane_signature = Some ''abc'', body = Some ''first''\<rparr> (Response 204) ''now'')) = 403
   \<and> status (fst (handler sample_runtime sample_config Map.empty
      (signed ''not json'') (Response 204) ''now'')) = 500
   \<and> status (fst (handler sample_runtime sample_config Map.empty
      (signed ''first'') (Response 204) ''now'')) = 200
   \<and> status (fst (handler sample_runtime sample_config
      [''issue:7'' \<mapsto> \<lparr>timestamp = Num 1000, action = JStr ''updated''\<rparr>]
      (signed ''second'') (Response 503) ''now'')) = 500
   \<and> status (fst (handler sample_runtime sample_config Map.empty
      \<lparr>x_plane_signature = Some ''abc'', body = None\<rparr> (Response 204) ''now'')) = 500"
proof (intro conjI)
  show "status (fst (handler sample_runtime sample_config Map.empty
      \<lparr>x_plane_signature = None, body = Some ''first''\<rparr> (Response 204) ''now'')) = 401"
    using response_taxonomy [of sample_config "\<lparr>x_plane_signature = None, body = Some ''first''\<rparr>"
        sample_runtime Map.empty "Response 204" "''now''"]
    by simp
next
  have l: "Buffer_from ''abc'' \<noteq> Buffer_from (hmac_sha256_hex sample_runtime ''s3cret'' ''first'')"
    by (simp add: sample_runtime_def Buffer_from_def utf8_of_char_def sample_digest_def)
  show "status (fst (handler sample_runtime sample_config Map.empty
      \<lparr>x_plane_signature = Some ''abc'', body = Some ''first''\<rparr> (Response 204) ''now'')) = 403"
    using response_taxonomy [of sample_config "\<lparr>x_plane_signature = Some ''abc'', body = Some ''first''\<rparr>"
        sample_runtime Map.empty "Response 204" "''now''", THEN conjunct2, THEN conjunct1,
        rule_format, of "''s3cret''" "''abc''" "''first''"] l
    by (simp add: sample_config_def)
next
  have p: "JSON_parse sample_runtime ''not json'' = None"
    by (simp add: sample_runtime_def sample_parse_def)
  show "status (fst (handler sample_runtime sample_config Map.empty
      (signed ''not json'') (Response 204) ''now'')) = 500"
    using response_taxonomy [of sample_config "signed ''not json''"
        sample_runtime Map.empty "Response 204" "''now''", THEN conjunct2, THEN conjunct2, THEN conjunct1,
        rule_format, OF conjI [OF sample_verify disjI1 [OF p]]]
    by simp
next
  show "status (fst (handler sample_runtime sample_config Map.empty
      (signed ''first'') (Response 204) ''now'')) = 200"
    using response_taxonomy [of sample_config "signed ''first''"
        sample_runtime Map.empty "Response 204" "''now''", THEN conjunct2, THEN conjunct2, THEN conjunct2,
        THEN conjunct1, rule_format, OF conjI [OF sample_verify conjI [OF sample_envelope_first]]]
    by (simp add: observe_absent)
next
  let ?m = "[''issue:7'' \<mapsto> \<lparr>timestamp = Num 1000, action = JStr ''updated''\<rparr>]"
  have h: "handler sample_runtime sample_config ?m (signed ''second'') (Response 503) ''now'' =
      catch (DiscordApiError 503) Map.empty
        ([CallTimingSafeEqual (Buffer_from sample_digest) (Buffer_from sample_digest)] @
         [Fetch (DiscordWebhookUrl sample_config)
            (JSON_stringify sample_runtime (JObj [(''embeds'', JArr [JObj
     [(''title'', JStr ''ISSUE UPDATED''),
      (''description'', JStr ''**Entity:** Fix login''),
      (''color'', JNum ''5282794''),
      (''fields'', JArr
         [JObj [(''name'', JStr ''Type''), (''value'', JStr ''state''), (''inline'', JBool True)],
          JObj [(''name'', JStr ''By''), (''value'', JStr ''Ada''), (''inline'', JBool True)],
          JObj [(''name'', JStr ''Content''), (''value'', JStr ''Issue is now in DONE'')]]),
      (''timestamp'', JStr ''now'')]])]))])"
    by (simp add: handler_delivers [OF sample_verify sample_envelope_second _ sample_embed_second]
        sample_second_completed ok_def)
  show "status (fst (handler sample_runtime sample_config ?m
      (signed ''second'') (Response 503) ''now'')) = 500"
    using response_taxonomy [of sample_config "signed ''second''"
        sample_runtime ?m "Response 503" "''now''", THEN conjunct2, THEN conjunct2, THEN conjunct2,
        THEN conjunct2, THEN conjunct1, rule_format,
        of "DiscordWebhookUrl sample_config" "JSON_stringify sample_runtime (JObj [(''embeds'', JArr [JObj
     [(''title'', JStr ''ISSUE UPDATED''),
      (''description'', JStr ''**Entity:** Fix login''),
      (''color'', JNum ''5282794''),
      (''fields'', JArr
         [JObj [(''name'', JStr ''Type''), (''value'', JStr ''state''), (''inline'', JBool True)],
          JObj [(''name'', JStr ''By''), (''value'', JStr ''Ada''), (''inline'', JBool True)],
          JObj [(''name'', JStr ''Content''), (''value'', JStr ''Issue is now in DONE'')]]),
      (''timestamp'', JStr ''now'')]])])"]
    by (simp add: h catch_def ok_def)
next
  show "status (fst (handler sample_runtime sample_config Map.empty
      \<lparr>x_plane_signature = Some ''abc'', body = None\<rparr> (Response 204) ''now'')) = 500"
    using response_taxonomy [of sample_config "\<lparr>x_plane_signature = Some ''abc'', body = None\<rparr>"
        sample_runtime Map.empty "Response 204" "''now''", THEN conjunct2, THEN conjunct2, THEN conjunct2,
        THEN conjunct2, THEN conjunct2, THEN conjunct1, rule_format, of "''s3cret''" "''abc''"]
    by (simp add: sample_config_def)
qed

text \<open>
  Against C5 as stated: the payload \<^verbatim>\<open>{"data":{}}\<close> lacks \<open>event\<close>, \<open>action\<close>,
  \<open>data.id\<close>, \<open>data.updated_at\<close> and \<open>data.name\<close>, and the handler caches it and
  answers 200.
\<close>

theorem bare_payload_is_cached:
  "JSON_parse sample_runtime ''bare'' = Some bare_payload
   \<and> get_prop bare_payload ''event'' = JUndefined
   \<and> get_prop bare_payload ''action'' = JUndefined
   \<and> get_prop (get_prop bare_payload ''data'') ''id'' = JUndefined
   \<and> get_prop (get_prop bare_payload ''data'') ''updated_at'' = JUndefined
   \<and> get_prop (get_prop bare_payload ''data'') ''name'' = JUndefined
   \<and> handler sample_runtime sample_config Map.empty (signed ''bare'') (Response 204) ''now'' =
       (\<lparr>status = 200, send = ''Initial event cached''\<rparr>,
        [''undefined:undefined'' \<mapsto> \<lparr>timestamp = NaN, action = JUndefined\<rparr>],
        [CallTimingSafeEqual (Buffer_from sample_digest) (Buffer_from sample_digest),
         SetTimeout ''undefined:undefined'' NaN WINDOW_MS])"
proof -
  have "handler sample_runtime sample_config Map.empty (signed ''bare'') (Response 204) ''now'' =
       (\<lparr>status = 200, send = ''Initial event cached''\<rparr>,
        [''undefined:undefined'' \<mapsto> \<lparr>timestamp = NaN, action = JUndefined\<rparr>],
        [CallTimingSafeEqual (Buffer_from sample_digest) (Buffer_from sample_digest),
         SetTimeout ''undefined:undefined'' NaN WINDOW_MS])"
    by (simp add: handler_readable [OF sample_verify sample_envelope_bare] observe_absent)
  moreover have "JSON_parse sample_runtime ''bare'' = Some bare_payload"
    by (simp add: sample_runtime_def sample_parse_def)
  ultimately show ?thesis
    by (simp add: bare_payload_def)
qed

section \<open>The outbound message\<close>

lemma message_same_for_any_record:
  assumes "verify rt cfg req = (effs, Inr (Authentic b))" and "parse_envelope rt b = Inr env"
    and "fst (observe m1 (sequenceKey env) (incomingTimestamp env) (env_action env)) = Completed"
    and "fst (observe m2 (sequenceKey env) (incomingTimestamp env) (env_action env)) = Completed"
  shows "fst (handler rt cfg m1 req outcome now) = fst (handler rt cfg m2 req outcome now)
       \<and> snd (snd (handler rt cfg m1 req outcome now)) = snd (snd (handler rt cfg m2 req outcome now))
       \<and> (\<forall>emb. build_embed rt env now = Inr emb \<longrightarrow>
             filter is_fetch (snd (snd (handler rt cfg m1 req outcome now))) =
               [Fetch (DiscordWebhookUrl cfg) (JSON_stringify rt (JObj [(''embeds'', JArr [emb])]))])"
proof (cases "build_embed rt env now")
  case (Inl e)
  then show ?thesis
    by (simp add: handler_embed_fails [OF assms(1,2,3)] handler_embed_fails [OF assms(1,2,4)] catch_def)
next
  case (Inr emb)
  with verify_no_fetch [OF assms(1)] show ?thesis
    by (simp add: handler_delivers [OF assms(1,2,3)] handler_delivers [OF assms(1,2,4)] catch_def Let_def
        is_fetch_def split: fetch_outcome.splits)
qed



section \<open>Delivery\<close>




section \<open>The embed\<close>



end
